theory Spec2Isabelle
  imports Complex_Main "HOL-Library.Multiset"
begin

section \<open>Data model (types.ts)\<close>

text \<open>
  The entities are plain objects exchanged as JSON. An optional or nullable field is an
  \<open>option\<close>; a number that is an identifier, a size or a count is an integer, an amount or
  a score a rational.

  \<^verbatim>\<open>export type UiState = "idle" | "loading" | "success" | "error";
  export type Source = { document_id: number; property_id?: number; chunk_id: string;
                         page?: number; score?: number; };
  export type DocumentItem = { document_id: number; property_id: number; filename: string;
                               uploaded_at?: string | null; };
  export type DocumentStatus = "indexed" | "processing" | "error";
  export type ChatMessage = { id: string; role: "user" | "assistant"; text: string;
                              sources?: Source[]; sourceDetails?: Record<string, string>; };
  export type TimelineItem = {
    document_id?: number; filename?: string; source?: string; source_quote?: string | null;
    title: string; date_iso: string; time_24h?: string | null; category: string;
    amount_eur?: number | null; description: string; };
  export type Toast = { id: string; type: "success" | "error" | "warning"; title: string;
                        details?: string; };
  export type AuthUser = { id: number; email: string; created_at?: string | null; };
  export type PropertyItem = { id: number; user_id: number; name: string;
                               address_optional?: string | null; created_at?: string | null; };\<close>
\<close>

datatype UiState = UiIdle | UiLoading | UiSuccess | UiError

record Source =
  source_document_id :: int
  source_property_id :: "int option"
  chunk_id :: string
  page :: "int option"
  score :: "rat option"

record DocumentItem =
  doc_document_id :: int
  doc_property_id :: int
  doc_filename :: string
  uploaded_at :: "string option"

datatype DocumentStatus = Indexed | Processing | Failed

datatype Role = User | Assistant

record ChatMessage =
  msg_id :: string
  role :: Role
  msg_text :: string
  sources :: "Source list option"
  sourceDetails :: "(string \<times> string) list option"

record TimelineItem =
  document_id :: "int option"
  filename :: "string option"
  source :: "string option"
  source_quote :: "string option"
  title :: string
  date_iso :: string
  time_24h :: "string option"
  category :: string
  amount_eur :: "rat option"
  description :: string

datatype ToastType = ToastSuccess | ToastError | ToastWarning

record Toast =
  toast_id :: string
  toast_type :: ToastType
  toast_title :: string
  toast_details :: "string option"

record AuthUser =
  user_id :: int
  email :: string
  user_created_at :: "string option"

record PropertyItem =
  property_id :: int
  owner_id :: int
  property_name :: string
  address_optional :: "string option"
  property_created_at :: "string option"

text \<open>
  A browser \<^verbatim>\<open>File\<close>, with the three properties the application reads:
  \<^verbatim>\<open>file.name\<close>, \<^verbatim>\<open>file.type\<close> (the MIME type) and \<^verbatim>\<open>file.size\<close> (bytes).
\<close>

record File =
  file_name :: string
  file_type :: string
  file_size :: nat

text \<open>
  The arrays of the timeline hold references to item objects: the sort, the filters and
  the grouping move references, and \<^verbatim>\<open>Set.has\<close> compares them by identity. A reference
  is a number and the store maps it to the object it points to.
\<close>

type_synonym ref = nat
type_synonym store = "ref \<Rightarrow> TimelineItem"

section \<open>The JavaScript environment\<close>

text \<open>A value that \<^verbatim>\<open>JSON.parse\<close> returns.\<close>

datatype json =
  JNull | JBool bool | JNum rat | JStr string | JArr "json list" | JObj "(string \<times> json) list"

text \<open>
  The frontend is TypeScript running in a browser. The built-ins of the platform that
  the modelled functions call are not code of this repository; they are collected in one
  record and every modelled function that calls one takes the record as its first
  argument, so that each theorem holds for whatever the platform computes.

  \<^item> \<open>toLowerCase s\<close> is \<^verbatim>\<open>s.toLowerCase()\<close>, \<open>trim s\<close> is \<^verbatim>\<open>s.trim()\<close>;
  \<^item> \<open>localeCompare a b\<close> is \<^verbatim>\<open>a.localeCompare(b)\<close>;
  \<^item> \<open>Date_getTime s\<close> is \<^verbatim>\<open>new Date(s).getTime()\<close>: \<open>Some t\<close> for the
    timestamp \<open>t\<close> in milliseconds, \<open>None\<close> when the result is \<^verbatim>\<open>NaN\<close>
    (an invalid date);
  \<^item> \<open>addDays t n\<close> is the timestamp of the \<^verbatim>\<open>Date\<close> with timestamp \<open>t\<close> after
    \<^verbatim>\<open>d.setDate(d.getDate() + n)\<close> (calendar days in local time);
  \<^item> \<open>String_num n\<close> is \<^verbatim>\<open>String(n)\<close>, also what a template literal inserts for a
    number;
  \<^item> \<open>Number_finite s\<close> is \<^verbatim>\<open>Number(s)\<close> when that is a finite number, \<open>None\<close> when
    it is \<^verbatim>\<open>NaN\<close> or infinite (the numbers read this way are property ids);
  \<^item> \<open>JSON_parse s\<close> is \<^verbatim>\<open>JSON.parse(s)\<close>, \<open>None\<close> when it throws;
  \<^item> \<open>ToString v\<close> is the string an \<^verbatim>\<open>Error\<close> constructor makes of the message
    \<open>v\<close> it is given;
  \<^item> \<open>stringifyHistory h\<close> is \<^verbatim>\<open>JSON.stringify(h)\<close> of a chat history, and
    \<open>parseHistory s\<close> is \<^verbatim>\<open>JSON.parse(s)\<close> when that is an array, read as a chat
    history, \<open>None\<close> when it throws or is no array.

  Strings are lists of characters; \<^verbatim>\<open>x || d\<close> on a string \<open>x\<close> yields \<open>d\<close> exactly when
  \<open>x\<close> is empty, and on an optional string also when it is absent or \<^verbatim>\<open>null\<close>.
\<close>

record builtins =
  toLowerCase :: "string \<Rightarrow> string"
  trim :: "string \<Rightarrow> string"
  localeCompare :: "string \<Rightarrow> string \<Rightarrow> int"
  Date_getTime :: "string \<Rightarrow> int option"
  addDays :: "int \<Rightarrow> int \<Rightarrow> int"
  String_num :: "int \<Rightarrow> string"
  Number_finite :: "string \<Rightarrow> int option"
  JSON_parse :: "string \<Rightarrow> json option"
  ToString :: "json \<Rightarrow> string"
  stringifyHistory :: "ChatMessage list \<Rightarrow> string"
  parseHistory :: "string \<Rightarrow> ChatMessage list option"

definition str_or :: "string \<Rightarrow> string \<Rightarrow> string" where
  "str_or x d = (if x = [] then d else x)"

definition opt_str_or :: "string option \<Rightarrow> string \<Rightarrow> string" where
  "opt_str_or x d = (case x of None \<Rightarrow> d | Some s \<Rightarrow> str_or s d)"

text \<open>\<^verbatim>\<open>s.includes(q)\<close>: \<open>q\<close> occurs in \<open>s\<close> as a contiguous substring.\<close>

fun String_includes :: "string \<Rightarrow> string \<Rightarrow> bool" where
  "String_includes [] q = (q = [])"
| "String_includes (c # cs) q = (take (length q) (c # cs) = q \<or> String_includes cs q)"

text \<open>\<^verbatim>\<open>s.endsWith(q)\<close>.\<close>

definition endsWith :: "string \<Rightarrow> string \<Rightarrow> bool" where
  "endsWith s q = (length q \<le> length s \<and> drop (length s - length q) s = q)"

text \<open>\<^verbatim>\<open>s.replace(/\/+$/, "")\<close>: the string without its trailing slashes.\<close>

definition stripTrailingSlashes :: "string \<Rightarrow> string" where
  "stripTrailingSlashes s = rev (dropWhile (\<lambda>c. c = CHR ''/'') (rev s))"

text \<open>
  \<^verbatim>\<open>Array.prototype.sort(comparefn)\<close>. The comparator returns a number; \<open>None\<close> stands for
  \<^verbatim>\<open>NaN\<close>, which the sort reads as \<open>+0\<close>. The sort is stable: for a consistent
  comparator its result is the one stable sorted permutation, which is what insertion from
  the right computes. (For an inconsistent comparator the language leaves the order to the
  implementation; the theorems below that speak about order assume what makes the
  comparator consistent on the dates.)
\<close>

definition sortCompare :: "('a \<Rightarrow> 'a \<Rightarrow> int option) \<Rightarrow> 'a \<Rightarrow> 'a \<Rightarrow> int" where
  "sortCompare comparefn x y = (case comparefn x y of None \<Rightarrow> 0 | Some v \<Rightarrow> v)"

fun sort_insert :: "('a \<Rightarrow> 'a \<Rightarrow> int option) \<Rightarrow> 'a \<Rightarrow> 'a list \<Rightarrow> 'a list" where
  "sort_insert comparefn x [] = [x]"
| "sort_insert comparefn x (y # ys) =
     (if sortCompare comparefn x y \<le> 0 then x # y # ys else y # sort_insert comparefn x ys)"

fun Array_sort :: "('a \<Rightarrow> 'a \<Rightarrow> int option) \<Rightarrow> 'a list \<Rightarrow> 'a list" where
  "Array_sort comparefn [] = []"
| "Array_sort comparefn (x # xs) = sort_insert comparefn x (Array_sort comparefn xs)"

text \<open>
  A \<^verbatim>\<open>Map\<close> keeps its keys in the order of their first insertion, and
  \<^verbatim>\<open>Array.from(map.entries())\<close> lists the bindings in that order: the map is a list of
  bindings. \<^verbatim>\<open>map.set\<close> replaces the value of a key that is present where it stands and
  appends a key that is new.
\<close>

type_synonym ('k, 'v) Map = "('k \<times> 'v) list"



fun Map_set :: "('k, 'v) Map \<Rightarrow> 'k \<Rightarrow> 'v \<Rightarrow> ('k, 'v) Map" where
  "Map_set [] k v = [(k, v)]"
| "Map_set ((k', v') # m) k v = (if k' = k then (k', v) # m else (k', v') # Map_set m k v)"

text \<open>\<^verbatim>\<open>new Map(entries)\<close> sets the entries one after the other.\<close>

definition Map_of_entries :: "('k \<times> 'v) list \<Rightarrow> ('k, 'v) Map" where
  "Map_of_entries entries = fold (\<lambda>(k, v) m. Map_set m k v) entries []"

section \<open>Timeline categories\<close>

text \<open>
  \<^verbatim>\<open>function normalizeCategory(category: string) {
    return ["meeting", "payment", "deadline", "info", "tax"].includes(category) ? category : "info";
  }\<close>
\<close>

definition normalizeCategory :: "string \<Rightarrow> string" where
  "normalizeCategory cat =
     (if cat \<in> set [''meeting'', ''payment'', ''deadline'', ''info'', ''tax'']
      then cat else ''info'')"

text \<open>
  \<^verbatim>\<open>function timelinePriority(category: string) {
    const normalized = normalizeCategory(category);
    if (normalized === "deadline") return 0;
    if (normalized === "payment") return 1;
    if (normalized === "meeting") return 2;
    if (normalized === "info") return 3;
    return 4;
  }\<close>
\<close>

definition timelinePriority :: "string \<Rightarrow> int" where
  "timelinePriority cat =
     (let normalized = normalizeCategory cat in
      if normalized = ''deadline'' then 0
      else if normalized = ''payment'' then 1
      else if normalized = ''meeting'' then 2
      else if normalized = ''info'' then 3
      else 4)"

section \<open>The filtered timeline (App.tsx)\<close>

text \<open>
  \<^verbatim>\<open>const sorted = [...timelineItems].sort((a, b) => {
    const pa = timelinePriority(a.category || "info");
    const pb = timelinePriority(b.category || "info");
    if (pa !== pb) return pa - pb;
    const da = new Date(a.date_iso).getTime();
    const db = new Date(b.date_iso).getTime();
    if (da !== db) return da - db;
    return (a.time_24h || "99:99").localeCompare(b.time_24h || "99:99");
  });\<close>
  \<^verbatim>\<open>da !== db\<close> is true as soon as one of the two is \<^verbatim>\<open>NaN\<close>, and then
  \<^verbatim>\<open>da - db\<close> is \<^verbatim>\<open>NaN\<close>.
\<close>

abbreviation itemPriority :: "store \<Rightarrow> ref \<Rightarrow> int" where
  "itemPriority h r \<equiv> timelinePriority (str_or (category (h r)) ''info'')"

definition timelineCompare :: "builtins \<Rightarrow> store \<Rightarrow> ref \<Rightarrow> ref \<Rightarrow> int option" where
  "timelineCompare B h a b =
     (let pa = itemPriority h a;
          pb = itemPriority h b
      in if pa \<noteq> pb then Some (pa - pb)
         else case (Date_getTime B (date_iso (h a)), Date_getTime B (date_iso (h b))) of
                (Some da, Some db) \<Rightarrow>
                  if da \<noteq> db then Some (da - db)
                  else Some (localeCompare B (opt_str_or (time_24h (h a)) ''99:99'')
                                            (opt_str_or (time_24h (h b)) ''99:99''))
              | _ \<Rightarrow> None)"

text \<open>
  \<^verbatim>\<open>return sorted.filter((item) => {
    const category = normalizeCategory(item.category);
    if (timelineCategory && category !== timelineCategory) return false;
    const q = timelineSearch.trim().toLowerCase();
    if (!q) return true;
    return `${item.title || ""} ${item.description || ""}`.toLowerCase().includes(q);
  });\<close>
\<close>

definition timelineMatches :: "builtins \<Rightarrow> string \<Rightarrow> string \<Rightarrow> TimelineItem \<Rightarrow> bool" where
  "timelineMatches B timelineCategory timelineSearch item =
     (let cat = normalizeCategory (category item) in
      if timelineCategory \<noteq> [] \<and> cat \<noteq> timelineCategory then False
      else let q = toLowerCase B (trim B timelineSearch) in
        if q = [] then True
        else String_includes (toLowerCase B (str_or (title item) [] @ '' '' @ str_or (description item) [])) q)"

definition filteredTimeline :: "builtins \<Rightarrow> store \<Rightarrow> ref list \<Rightarrow> string \<Rightarrow> string \<Rightarrow> ref list" where
  "filteredTimeline B h timelineItems timelineCategory timelineSearch =
     filter (\<lambda>r. timelineMatches B timelineCategory timelineSearch (h r))
       (Array_sort (timelineCompare B h) timelineItems)"

text \<open>
  The first version of the component compared the dates before the priorities, and knew
  four categories:
  \<^verbatim>\<open>function normalizeCategory(category: string) {
    return ["meeting", "payment", "deadline", "info"].includes(category) ? category : "info";
  }
  function timelinePriority(category: string) {
    const normalized = normalizeCategory(category);
    if (normalized === "deadline") return 0;
    if (normalized === "payment") return 1;
    if (normalized === "meeting") return 2;
    return 3;
  }
  const sorted = [...timelineItems].sort((a, b) => {
    const da = new Date(a.date_iso).getTime();
    const db = new Date(b.date_iso).getTime();
    if (da !== db) return da - db;
    const pa = timelinePriority(a.category || "info");
    const pb = timelinePriority(b.category || "info");
    if (pa !== pb) return pa - pb;
    return (a.time_24h || "99:99").localeCompare(b.time_24h || "99:99");
  });\<close>
  with the same filter after the sort.
\<close>

definition normalizeCategory_v1 :: "string \<Rightarrow> string" where
  "normalizeCategory_v1 cat =
     (if cat \<in> set [''meeting'', ''payment'', ''deadline'', ''info''] then cat else ''info'')"

definition timelinePriority_v1 :: "string \<Rightarrow> int" where
  "timelinePriority_v1 cat =
     (let normalized = normalizeCategory_v1 cat in
      if normalized = ''deadline'' then 0
      else if normalized = ''payment'' then 1
      else if normalized = ''meeting'' then 2
      else 3)"

definition timelineCompare_v1 :: "builtins \<Rightarrow> store \<Rightarrow> ref \<Rightarrow> ref \<Rightarrow> int option" where
  "timelineCompare_v1 B h a b =
     (case (Date_getTime B (date_iso (h a)), Date_getTime B (date_iso (h b))) of
        (Some da, Some db) \<Rightarrow>
          if da \<noteq> db then Some (da - db)
          else let pa = timelinePriority_v1 (str_or (category (h a)) ''info'');
                   pb = timelinePriority_v1 (str_or (category (h b)) ''info'')
               in if pa \<noteq> pb then Some (pa - pb)
                  else Some (localeCompare B (opt_str_or (time_24h (h a)) ''99:99'')
                                            (opt_str_or (time_24h (h b)) ''99:99''))
      | _ \<Rightarrow> None)"

definition timelineMatches_v1 :: "builtins \<Rightarrow> string \<Rightarrow> string \<Rightarrow> TimelineItem \<Rightarrow> bool" where
  "timelineMatches_v1 B timelineCategory timelineSearch item =
     (let cat = normalizeCategory_v1 (category item) in
      if timelineCategory \<noteq> [] \<and> cat \<noteq> timelineCategory then False
      else let q = toLowerCase B (trim B timelineSearch) in
        if q = [] then True
        else String_includes (toLowerCase B (str_or (title item) [] @ '' '' @ str_or (description item) [])) q)"

definition filteredTimeline_v1 :: "builtins \<Rightarrow> store \<Rightarrow> ref list \<Rightarrow> string \<Rightarrow> string \<Rightarrow> ref list" where
  "filteredTimeline_v1 B h timelineItems timelineCategory timelineSearch =
     filter (\<lambda>r. timelineMatches_v1 B timelineCategory timelineSearch (h r))
       (Array_sort (timelineCompare_v1 B h) timelineItems)"

section \<open>Current and archived timeline items (App.tsx)\<close>

text \<open>
  \<^verbatim>\<open>return filteredTimeline.filter((item) => {
    const dt = new Date(item.date_iso);
    if (Number.isNaN(dt.getTime())) return false;
    const category = normalizeCategory(item.category || "info");
    const isInfo = category === "info";
    const isUpcomingNonInfo = !isInfo && dt >= start;
    const isDeadlineOrPaymentSoon =
      (category === "deadline" || category === "payment") && dt >= start && dt <= next60;
    const isRecentlyRelevant = dt < start && dt >= last14;
    const isInfoNearFuture = isInfo && dt >= start && dt <= infoNearFuture;
    if (isInfo) return isInfoNearFuture || isRecentlyRelevant;
    return isUpcomingNonInfo || isDeadlineOrPaymentSoon || isRecentlyRelevant;
  });\<close>
  Two \<^verbatim>\<open>Date\<close> objects are compared through their timestamps.
\<close>

definition timelineIsCurrent ::
  "builtins \<Rightarrow> int \<Rightarrow> int \<Rightarrow> int \<Rightarrow> int \<Rightarrow> TimelineItem \<Rightarrow> bool" where
  "timelineIsCurrent B start next60 last14 infoNearFuture item =
     (case Date_getTime B (date_iso item) of
        None \<Rightarrow> False
      | Some dt \<Rightarrow>
          let cat = normalizeCategory (str_or (category item) ''info'');
              isInfo = (cat = ''info'');
              isUpcomingNonInfo = (\<not> isInfo \<and> dt \<ge> start);
              isDeadlineOrPaymentSoon =
                ((cat = ''deadline'' \<or> cat = ''payment'') \<and> dt \<ge> start \<and> dt \<le> next60);
              isRecentlyRelevant = (dt < start \<and> dt \<ge> last14);
              isInfoNearFuture = (isInfo \<and> dt \<ge> start \<and> dt \<le> infoNearFuture)
          in if isInfo then isInfoNearFuture \<or> isRecentlyRelevant
             else isUpcomingNonInfo \<or> isDeadlineOrPaymentSoon \<or> isRecentlyRelevant)"

text \<open>
  \<^verbatim>\<open>const start = new Date(); start.setHours(0, 0, 0, 0);
  const next60 = new Date(start); next60.setDate(next60.getDate() + 60);
  const last14 = new Date(start); last14.setDate(last14.getDate() - 14);
  const infoNearFuture = new Date(start); infoNearFuture.setDate(infoNearFuture.getDate() + 7);\<close>
  The argument \<open>start\<close> is the timestamp of today's local midnight, read from the clock.
\<close>

definition timelineCurrentItems :: "builtins \<Rightarrow> int \<Rightarrow> store \<Rightarrow> ref list \<Rightarrow> ref list" where
  "timelineCurrentItems B start h filtered =
     (let next60 = addDays B start 60;
          last14 = addDays B start (- 14);
          infoNearFuture = addDays B start 7
      in filter (\<lambda>r. timelineIsCurrent B start next60 last14 infoNearFuture (h r)) filtered)"

text \<open>
  \<^verbatim>\<open>const currentSet = new Set(timelineCurrentItems);
  return filteredTimeline.filter((item) => !currentSet.has(item));\<close>
  The set holds references.
\<close>

definition timelineArchiveItems :: "ref list \<Rightarrow> ref list \<Rightarrow> ref list" where
  "timelineArchiveItems filtered current =
     filter (\<lambda>r. r \<notin> set current) filtered"

section \<open>Grouping by date (App.tsx)\<close>




section \<open>Selecting files for upload (App.tsx)\<close>

definition MAX_FILE_SIZE :: nat where
  "MAX_FILE_SIZE = 20 * 1024 * 1024"

text \<open>
  The two messages of \<^verbatim>\<open>validateFiles\<close> after the file name:
  \<^verbatim>\<open>": nur PDF- oder ZIP-Dateien sind erlaubt."\<close> and
  \<^verbatim>\<open>": Datei ist gr..er als 20 MB."\<close>, the two letters that are not ASCII written as
  the bytes of their UTF-8 encoding.
\<close>

definition msg_not_allowed :: string where
  "msg_not_allowed = '': nur PDF- oder ZIP-Dateien sind erlaubt.''"

definition msg_too_large :: string where
  "msg_too_large =
     '': Datei ist gr'' @ [CHR 0xC3, CHR 0xB6, CHR 0xC3, CHR 0x9F] @ ''er als 20 MB.''"

text \<open>
  \<^verbatim>\<open>const validateFiles = (files: File[]) => {
    const valid: File[] = [];
    const errors: string[] = [];
    for (const file of files) {
      const isPdfType = file.type === "application/pdf";
      const hasPdfExt = file.name.toLowerCase().endsWith(".pdf");
      const isZipType = ["application/zip", "application/x-zip-compressed"].includes(file.type);
      const hasZipExt = file.name.toLowerCase().endsWith(".zip");
      if ((!isPdfType && !hasPdfExt) && (!isZipType && !hasZipExt)) {
        errors.push(`${file.name}: nur PDF- oder ZIP-Dateien sind erlaubt.`);
        continue;
      }
      if (file.size > MAX_FILE_SIZE) {
        errors.push(`${file.name}: Datei ist gr..er als 20 MB.`);
        continue;
      }
      valid.push(file);
    }
    return { valid, errors };
  };\<close>
  One round of the loop takes the two arrays and returns them with the file or its error
  message pushed.
\<close>

definition validateStep :: "builtins \<Rightarrow> File \<Rightarrow> File list \<times> string list \<Rightarrow> File list \<times> string list" where
  "validateStep B file acc =
     (let valid = fst acc; errors = snd acc;
          isPdfType = (file_type file = ''application/pdf'');
          hasPdfExt = endsWith (toLowerCase B (file_name file)) ''.pdf'';
          isZipType = (file_type file \<in> set [''application/zip'', ''application/x-zip-compressed'']);
          hasZipExt = endsWith (toLowerCase B (file_name file)) ''.zip''
      in if (\<not> isPdfType \<and> \<not> hasPdfExt) \<and> (\<not> isZipType \<and> \<not> hasZipExt)
         then (valid, errors @ [file_name file @ msg_not_allowed])
         else if file_size file > MAX_FILE_SIZE
         then (valid, errors @ [file_name file @ msg_too_large])
         else (valid @ [file], errors))"

definition validateFiles :: "builtins \<Rightarrow> File list \<Rightarrow> File list \<times> string list" where
  "validateFiles B files = fold (validateStep B) files ([], [])"

text \<open>
  The two checks of the loop as predicates of a file, for the statements below: the type
  check passes when the MIME type or the lower-cased name's extension is that of a PDF or
  of a ZIP archive, and a file is accepted when it passes the type check and is not larger
  than \<open>MAX_FILE_SIZE\<close>.
\<close>

definition isPdfOrZip :: "builtins \<Rightarrow> File \<Rightarrow> bool" where
  "isPdfOrZip B f =
     (file_type f = ''application/pdf'' \<or> endsWith (toLowerCase B (file_name f)) ''.pdf''
      \<or> file_type f = ''application/zip'' \<or> file_type f = ''application/x-zip-compressed''
      \<or> endsWith (toLowerCase B (file_name f)) ''.zip'')"

definition fileAccepted :: "builtins \<Rightarrow> File \<Rightarrow> bool" where
  "fileAccepted B f = (isPdfOrZip B f \<and> file_size f \<le> MAX_FILE_SIZE)"

text \<open>
  The part of the component state that \<^verbatim>\<open>addFiles\<close> writes.
\<close>

record UploadState =
  uploadState :: UiState
  uploadMessage :: string
  uploadDetails :: string
  selectedFiles :: "File list"
  uploadErrors :: "string list"

text \<open>The key of a selected file, \<^verbatim>\<open>`${f.name}:${f.size}`\<close>.\<close>

definition fileKey :: "builtins \<Rightarrow> File \<Rightarrow> string" where
  "fileKey B f = file_name f @ '':'' @ String_num B (int (file_size f))"

text \<open>
  \<^verbatim>\<open>const addFiles = (files: File[]) => {
    const { valid, errors } = validateFiles(files);
    setSelectedFiles((prev) => {
      const map = new Map(prev.map((f) => [`${f.name}:${f.size}`, f]));
      for (const file of valid) map.set(`${file.name}:${file.size}`, file);
      return Array.from(map.values());
    });
    setUploadErrors([...errors, ...(valid.length ? [`${valid.length} Datei(en) hinzugef..gt.`] : [])]);
    if (errors.length > 0) {
      setUploadState("error");
      setUploadMessage("Ung..ltige Dateien erkannt");
      setUploadDetails(`${errors.length} Datei(en) abgelehnt.`);
    } else {
      setUploadState("idle");
      setUploadMessage("Bereit");
      setUploadDetails("PDF oder ZIP ausw..hlen und hochladen.");
    }
  };\<close>
\<close>

definition mergeSelected :: "builtins \<Rightarrow> File list \<Rightarrow> File list \<Rightarrow> File list" where
  "mergeSelected B valid prev =
     map snd (fold (\<lambda>file m. Map_set m (fileKey B file) file) valid
                (Map_of_entries (map (\<lambda>f. (fileKey B f, f)) prev)))"

definition u_umlaut :: string where
  "u_umlaut = [CHR 0xC3, CHR 0xBC]"

definition a_umlaut :: string where
  "a_umlaut = [CHR 0xC3, CHR 0xA4]"

definition addFiles :: "builtins \<Rightarrow> File list \<Rightarrow> UploadState \<Rightarrow> UploadState" where
  "addFiles B files s =
     (let valid = fst (validateFiles B files); errors = snd (validateFiles B files);
          s1 = s\<lparr> selectedFiles := mergeSelected B valid (selectedFiles s) \<rparr>;
          s2 = s1\<lparr> uploadErrors :=
                 errors @ (if length valid \<noteq> 0
                           then [String_num B (int (length valid)) @ '' Datei(en) hinzugef''
                                   @ u_umlaut @ ''gt.'']
                           else []) \<rparr>
      in if length errors > 0
         then s2\<lparr> uploadState := UiError,
                 uploadMessage := ''Ung'' @ u_umlaut @ ''ltige Dateien erkannt'',
                 uploadDetails := String_num B (int (length errors)) @ '' Datei(en) abgelehnt.'' \<rparr>
         else s2\<lparr> uploadState := UiIdle,
                 uploadMessage := ''Bereit'',
                 uploadDetails := ''PDF oder ZIP ausw'' @ a_umlaut @ ''hlen und hochladen.'' \<rparr>)"

text \<open>
  The selected files are written in three places: the state starts as the empty array,
  \<^verbatim>\<open>addFiles\<close> merges validated files into it, and an upload without failures empties
  it again (\<^verbatim>\<open>setSelectedFiles([])\<close>). The states the selection can reach:
\<close>

inductive reachableSelection :: "builtins \<Rightarrow> File list \<Rightarrow> bool" for B :: builtins where
  initial: "reachableSelection B []"
| added: "reachableSelection B prev \<Longrightarrow>
          reachableSelection B (selectedFiles (addFiles B files (s\<lparr> selectedFiles := prev \<rparr>)))"
| uploaded: "reachableSelection B prev \<Longrightarrow> reachableSelection B []"

text \<open>
  The invariant of the \<^verbatim>\<open>Map\<close> that \<^verbatim>\<open>addFiles\<close> builds, for the proofs: the keys are
  pairwise distinct, and each key is the key of the file bound to it, which is an accepted
  file.
\<close>

definition keyed :: "builtins \<Rightarrow> (string, File) Map \<Rightarrow> bool" where
  "keyed B m = (distinct (map fst m) \<and> (\<forall>(k, f) \<in> set m. k = fileKey B f \<and> fileAccepted B f))"

section \<open>Errors of the HTTP client (lib/api.ts)\<close>

text \<open>
  \<^verbatim>\<open>export class ApiError extends Error {
    status?: number;
    isTimeout: boolean;
    latencyMs?: number;
    constructor(message: string,
                opts: { status?: number; isTimeout?: boolean; latencyMs?: number } = {}) {
      super(message);
      this.name = "ApiError";
      this.status = opts.status;
      this.isTimeout = Boolean(opts.isTimeout);
      this.latencyMs = opts.latencyMs;
    }
  }\<close>
\<close>

record ApiError =
  message :: string
  status :: "int option"
  isTimeout :: bool
  latencyMs :: "int option"

definition new_ApiError :: "string \<Rightarrow> int option \<Rightarrow> bool option \<Rightarrow> int option \<Rightarrow> ApiError" where
  "new_ApiError msg opt_status opt_isTimeout opt_latencyMs =
     \<lparr> message = msg, status = opt_status,
       isTimeout = (case opt_isTimeout of None \<Rightarrow> False | Some b \<Rightarrow> b),
       latencyMs = opt_latencyMs \<rparr>"

text \<open>
  What a \<^verbatim>\<open>catch\<close> clause can receive: an \<^verbatim>\<open>ApiError\<close>, another \<^verbatim>\<open>Error\<close> (or
  \<^verbatim>\<open>DOMException\<close>) with its name and message, or a value that is no error object.
\<close>

datatype thrown = ThrownApiError ApiError | ThrownError string string | ThrownOther

text \<open>
  \<^verbatim>\<open>export function normalizeApiError(error: unknown, fallback = "Unbekannter Fehler") {
    if (error instanceof ApiError) return error.message || fallback;
    if (error instanceof Error) return error.message || fallback;
    return fallback;
  }\<close>
\<close>

fun normalizeApiError :: "thrown \<Rightarrow> string \<Rightarrow> string" where
  "normalizeApiError (ThrownApiError e) fallback = str_or (message e) fallback"
| "normalizeApiError (ThrownError name msg) fallback = str_or msg fallback"
| "normalizeApiError ThrownOther fallback = fallback"

text \<open>
  \<^verbatim>\<open>function parseResponse(raw: string) {
    if (!raw) return {};
    try { return JSON.parse(raw); } catch { return { raw }; }
  }\<close>
\<close>

definition parseResponse :: "builtins \<Rightarrow> string \<Rightarrow> json" where
  "parseResponse B raw =
     (if raw = [] then JObj []
      else case JSON_parse B raw of Some v \<Rightarrow> v | None \<Rightarrow> JObj [(''raw'', JStr raw)])"

text \<open>
  Reading a property \<^verbatim>\<open>body.k\<close> of a parsed body whose static type is \<^verbatim>\<open>any\<close>: on
  \<^verbatim>\<open>null\<close> the read throws a \<^verbatim>\<open>TypeError\<close> (the message is the engine's), on an object
  it yields the value bound to the key or \<^verbatim>\<open>undefined\<close> (\<open>None\<close>), on a boolean, a
  number, a string or an array it yields \<^verbatim>\<open>undefined\<close> for the keys read here. A value of
  \<^verbatim>\<open>a || b\<close> is \<open>a\<close> when \<open>a\<close> is truthy.
\<close>

fun getProp :: "json \<Rightarrow> string \<Rightarrow> thrown + json option" where
  "getProp JNull k =
     Inl (ThrownError ''TypeError''
            (''Cannot read properties of null (reading '' @ [CHR 0x27] @ k @ [CHR 0x27] @ '')''))"
| "getProp (JObj kvs) k = Inr (map_of kvs k)"
| "getProp v k = Inr None"

fun truthy :: "json option \<Rightarrow> bool" where
  "truthy None = False"
| "truthy (Some JNull) = False"
| "truthy (Some (JBool b)) = b"
| "truthy (Some (JNum n)) = (n \<noteq> 0)"
| "truthy (Some (JStr s)) = (s \<noteq> [])"
| "truthy (Some v) = True"

text \<open>
  The message of the error for a response that is not OK,
  \<^verbatim>\<open>body.detail || body.error || body.raw || `HTTP ${resp.status}`\<close>, as the \<^verbatim>\<open>Error\<close>
  constructor stores it; the reads are made from left to right and the first that throws
  ends the evaluation.
\<close>

definition errorMessage :: "builtins \<Rightarrow> json \<Rightarrow> int \<Rightarrow> thrown + string" where
  "errorMessage B body st =
     (case getProp body ''detail'' of
        Inl t \<Rightarrow> Inl t
      | Inr detail \<Rightarrow>
          if truthy detail then Inr (ToString B (the detail))
          else case getProp body ''error'' of
            Inl t \<Rightarrow> Inl t
          | Inr err \<Rightarrow>
              if truthy err then Inr (ToString B (the err))
              else case getProp body ''raw'' of
                Inl t \<Rightarrow> Inl t
              | Inr r \<Rightarrow>
                  if truthy r then Inr (ToString B (the r))
                  else Inr (''HTTP '' @ String_num B st))"

text \<open>
  What the platform does with the request: \<^verbatim>\<open>fetch\<close> rejects (a network failure, or an
  abort, which rejects with a \<^verbatim>\<open>DOMException\<close> named \<^verbatim>\<open>AbortError\<close>), or it resolves
  with a response of some HTTP status, whose body then arrives as text or whose read
  rejects (the abort can also come while the body is read). \<^verbatim>\<open>resp.ok\<close> is true for the
  statuses 200 to 299.
\<close>

datatype body_result = BodyText string | BodyRejects thrown

datatype fetch_result = FetchRejects thrown | FetchResolves int body_result

definition resp_ok :: "int \<Rightarrow> bool" where
  "resp_ok st = (200 \<le> st \<and> st \<le> 299)"

record ApiCallOptions =
  timeoutMs :: "int option"
  callerSignal :: bool

record ApiResult =
  result_data :: json
  result_latencyMs :: int
  result_status :: int

fun thrown_name :: "thrown \<Rightarrow> string option" where
  "thrown_name (ThrownApiError e) = Some ''ApiError''"
| "thrown_name (ThrownError name msg) = Some name"
| "thrown_name ThrownOther = None"

fun thrown_message :: "thrown \<Rightarrow> string option" where
  "thrown_message (ThrownApiError e) = Some (message e)"
| "thrown_message (ThrownError name msg) = Some msg"
| "thrown_message ThrownOther = None"

definition timeout_message :: string where
  "timeout_message =
     ''Zeit'' @ [CHR 0xC3, CHR 0xBC] @ ''berschreitung der Anfrage. Bitte erneut versuchen.''"

text \<open>
  \<^verbatim>\<open>const { timeoutMs = 15000, ...requestOptions } = options;
  const controller = new AbortController();
  const timer = window.setTimeout(() => controller.abort(), timeoutMs);\<close>
  The delay of the timer that aborts the request, and whether its abort reaches the request
  (\<^verbatim>\<open>signal: requestOptions.signal || controller.signal\<close>: only without a signal of the
  caller).
\<close>

definition timerDelay :: "ApiCallOptions \<Rightarrow> int" where
  "timerDelay options = (case timeoutMs options of None \<Rightarrow> 15000 | Some t \<Rightarrow> t)"

definition timerAbortsRequest :: "ApiCallOptions \<Rightarrow> bool" where
  "timerAbortsRequest options = (\<not> callerSignal options)"

text \<open>
  \<^verbatim>\<open>export async function apiCall<T>(url: string, options: ApiCallOptions = {}) {
    ...
    const startedAt = performance.now();
    try {
      const resp = await fetch(url, { ...requestOptions,
                                      signal: requestOptions.signal || controller.signal });
      const raw = await resp.text();
      const body: any = parseResponse(raw);
      const latencyMs = Math.max(1, Math.round(performance.now() - startedAt));
      if (!resp.ok) {
        throw new ApiError(body.detail || body.error || body.raw || `HTTP ${resp.status}`,
                           { status: resp.status, latencyMs });
      }
      return { data: body as T, latencyMs, status: resp.status };
    } catch (error: any) {
      const latencyMs = Math.max(1, Math.round(performance.now() - startedAt));
      if (error?.name === "AbortError") {
        throw new ApiError("Zeit..berschreitung der Anfrage. Bitte erneut versuchen.",
                           { isTimeout: true, latencyMs });
      }
      if (error instanceof ApiError) throw error;
      throw new ApiError(error?.message || "Netzwerkfehler", { latencyMs });
    } finally {
      window.clearTimeout(timer);
    }
  }\<close>
  The two readings of the clock, rounded elapsed milliseconds, are the pair \<open>clock\<close>: the
  first is taken in the \<^verbatim>\<open>try\<close> block, the second in the \<^verbatim>\<open>catch\<close> clause. The promise
  resolves with \<open>Inr\<close> and rejects with \<open>Inl\<close>.
\<close>

definition apiCall_try :: "builtins \<Rightarrow> int \<Rightarrow> fetch_result \<Rightarrow> thrown + ApiResult" where
  "apiCall_try B elapsed res =
     (case res of
        FetchRejects t \<Rightarrow> Inl t
      | FetchResolves st (BodyRejects t) \<Rightarrow> Inl t
      | FetchResolves st (BodyText raw) \<Rightarrow>
          (let body = parseResponse B raw;
               latency = max 1 elapsed
           in if \<not> resp_ok st then
                (case errorMessage B body st of
                   Inl t \<Rightarrow> Inl t
                 | Inr msg \<Rightarrow> Inl (ThrownApiError (new_ApiError msg (Some st) None (Some latency))))
              else Inr \<lparr> result_data = body, result_latencyMs = latency, result_status = st \<rparr>))"

definition apiCall_catch :: "int \<Rightarrow> thrown \<Rightarrow> ApiError" where
  "apiCall_catch elapsed error =
     (let latency = max 1 elapsed in
      if thrown_name error = Some ''AbortError''
      then new_ApiError timeout_message None (Some True) (Some latency)
      else case error of
        ThrownApiError e \<Rightarrow> e
      | _ \<Rightarrow> new_ApiError (opt_str_or (thrown_message error) ''Netzwerkfehler'') None None
               (Some latency))"

definition apiCall :: "builtins \<Rightarrow> ApiCallOptions \<Rightarrow> int \<times> int \<Rightarrow> fetch_result \<Rightarrow> ApiError + ApiResult" where
  "apiCall B options clock res =
     (case apiCall_try B (fst clock) res of
        Inr r \<Rightarrow> Inr r
      | Inl error \<Rightarrow> Inl (apiCall_catch (snd clock) error))"

section \<open>Component state (App.tsx)\<close>

text \<open>
  \<^verbatim>\<open>type AppLanguage = "de" | "en" | "fr";
  function parseLanguage(raw: string | null): AppLanguage {
    if (raw === "en" || raw === "fr") return raw;
    return "de";
  }\<close>
\<close>

datatype AppLanguage = De | En | Fr

fun languageCode :: "AppLanguage \<Rightarrow> string" where
  "languageCode De = ''de''"
| "languageCode En = ''en''"
| "languageCode Fr = ''fr''"

definition parseLanguage :: "string option \<Rightarrow> AppLanguage" where
  "parseLanguage raw = (if raw = Some ''en'' then En else if raw = Some ''fr'' then Fr else De)"

text \<open>
  The state variables of \<^verbatim>\<open>App\<close> that the modelled handlers and effects read or write
  (the variables of the upload card are in \<open>UploadState\<close>). \<^verbatim>\<open>documentStatuses\<close> is a
  \<^verbatim>\<open>Record<number, DocumentStatus>\<close>, a finite map from document ids.
\<close>

record AppState =
  apiBase :: string
  selectedLanguage :: AppLanguage
  currentUser :: "AuthUser option"
  properties :: "PropertyItem list"
  activePropertyId :: "int option"
  documents :: "DocumentItem list"
  documentStatuses :: "int \<rightharpoonup> DocumentStatus"
  chatState :: UiState
  chatMessage :: string
  chatDetails :: string
  chatQuestion :: string
  chatPending :: bool
  chatHistory :: "ChatMessage list"
  lastChatQuestion :: string
  toasts :: "Toast list"

text \<open>\<^verbatim>\<open>!activePropertyId\<close>: no property is selected (\<^verbatim>\<open>null\<close>), or the id is 0.\<close>

definition noProperty :: "int option \<Rightarrow> bool" where
  "noProperty p = (p = None \<or> p = Some 0)"

text \<open>
  \<^verbatim>\<open>function uuid() { return `${Date.now()}-${Math.random().toString(16).slice(2)}`; }\<close>
  reads the clock and the random generator; a handler takes the identifiers it draws as
  arguments.

  \<^verbatim>\<open>const addToast = (type: Toast["type"], title: string, details?: string) => {
    const id = uuid();
    setToasts((prev) => [...prev, { id, type, title, details }]);
    window.setTimeout(() => { setToasts((prev) => prev.filter((t) => t.id !== id)); }, 3000);
  };\<close>
  The removal after three seconds is a later event, not part of the handler's run.
\<close>

definition addToast :: "string \<Rightarrow> ToastType \<Rightarrow> string \<Rightarrow> string option \<Rightarrow> AppState \<Rightarrow> AppState" where
  "addToast uid ty ttl details s =
     s\<lparr> toasts := toasts s @ [\<lparr> toast_id = uid, toast_type = ty, toast_title = ttl,
                               toast_details = details \<rparr>] \<rparr>"

section \<open>Loading the documents (App.tsx)\<close>

text \<open>
  \<^verbatim>\<open>const loadDocuments = async () => {
    if (!currentUser || !activePropertyId) { setDocuments([]); return []; }
    try {
      const { data: docs } = await apiFetch<DocumentItem[]>(
        `${apiBase}/documents?property_id=${encodeURIComponent(activePropertyId)}`);
      const normalized = Array.isArray(docs) ? docs : [];
      setDocuments(normalized);
      setDocumentStatuses((prev) => {
        const next = { ...prev };
        for (const doc of normalized) {
          if (!next[doc.document_id]) next[doc.document_id] = "indexed";
        }
        return next;
      });
      return normalized;
    } catch (e: any) {
      if (e?.status === 401) {
        setCurrentUser(null); setProperties([]); setActivePropertyId(null);
      }
      return [];
    }
  };\<close>
  \<^verbatim>\<open>apiFetch\<close> (lib/api.ts) resolves with the body of the response or throws; what it does
  is the argument \<open>outcome\<close>. The body is \<open>Some docs\<close> when it is an array, read as
  documents, and \<open>None\<close> when it is no array.
\<close>

definition defaultStatuses ::
  "DocumentItem list \<Rightarrow> (int \<rightharpoonup> DocumentStatus) \<Rightarrow> (int \<rightharpoonup> DocumentStatus)" where
  "defaultStatuses normalized prev =
     fold (\<lambda>doc next. if next (doc_document_id doc) = None
                       then next(doc_document_id doc \<mapsto> Indexed) else next)
       normalized prev"

fun thrown_status :: "thrown \<Rightarrow> int option" where
  "thrown_status (ThrownApiError e) = status e"
| "thrown_status (ThrownError name msg) = None"
| "thrown_status ThrownOther = None"

definition loadDocuments :: "thrown + DocumentItem list option \<Rightarrow> AppState \<Rightarrow> AppState" where
  "loadDocuments outcome s =
     (if currentUser s = None \<or> noProperty (activePropertyId s) then s\<lparr> documents := [] \<rparr>
      else case outcome of
        Inr docs \<Rightarrow>
          (let normalized = (case docs of Some d \<Rightarrow> d | None \<Rightarrow> [])
           in s\<lparr> documents := normalized,
                 documentStatuses := defaultStatuses normalized (documentStatuses s) \<rparr>)
      | Inl e \<Rightarrow>
          (if thrown_status e = Some 401
           then s\<lparr> currentUser := None, properties := [], activePropertyId := None \<rparr>
           else s))"

text \<open>
  The upload card shows the status of a document as
  \<^verbatim>\<open>props.documentStatuses[doc.document_id] || "indexed"\<close> (UploadCard.tsx).
\<close>

definition shownStatus :: "(int \<rightharpoonup> DocumentStatus) \<Rightarrow> DocumentItem \<Rightarrow> DocumentStatus" where
  "shownStatus statuses doc =
     (case statuses (doc_document_id doc) of None \<Rightarrow> Indexed | Some st \<Rightarrow> st)"

section \<open>Asking a question (App.tsx)\<close>

text \<open>
  The body of the answer of \<^verbatim>\<open>POST /chat\<close>, declared
  \<^verbatim>\<open>{ answer: string; sources: Source[] }\<close>; the handler allows for either field to be
  missing (\<^verbatim>\<open>data.answer || ""\<close>, \<^verbatim>\<open>data.sources || []\<close>).
\<close>

record ChatResponse =
  answer :: "string option"
  answer_sources :: "Source list option"

text \<open>
  \<^verbatim>\<open>const askChat = async (question: string) => {
    if (!activePropertyId) {
      setChatState("error");
      setChatMessage("Keine Property gew..hlt");
      setChatDetails("Bitte zuerst eine Property ausw..hlen.");
      addToast("error", "Chat fehlgeschlagen", "Keine Property ausgew..hlt.");
      return;
    }
    if (!question.trim()) {
      setChatState("error");
      setChatMessage("Leere Frage");
      addToast("error", "Chat fehlgeschlagen", "Bitte Frage eingeben.");
      return;
    }
    const q = question.trim();
    setLastChatQuestion(q);
    setChatHistory((prev) => [...prev, { id: uuid(), role: "user", text: q }]);
    setChatQuestion("");
    setChatPending(true);
    setChatState("loading");
    setChatMessage("Frage l..uft...");
    try {
      const { data } = await apiFetch<{ answer: string; sources: Source[] }>(`${apiBase}/chat`,
        { method: "POST", headers: { "Content-Type": "application/json" },
          body: JSON.stringify({ question: q, property_id: activePropertyId,
                                 language: selectedLanguage }),
          timeoutMs: 30000 });
      setChatHistory((prev) => [...prev,
        { id: uuid(), role: "assistant", text: data.answer || "", sources: data.sources || [],
          sourceDetails: {} }]);
      setChatState("success");
      setChatMessage("Antwort erhalten");
      setChatDetails(`${data.sources?.length || 0} Quellen im Kontext.`);
      addToast("success", "Chat erfolgreich", `${data.sources?.length || 0} Quellen`);
    } catch (e) {
      const message = normalizeApiError(e, "Unbekannter Fehler");
      setChatHistory((prev) => [...prev,
        { id: uuid(), role: "assistant", text: `Fehler: ${message}` }]);
      setChatState("error");
      setChatMessage("Chat fehlgeschlagen");
      setChatDetails(message);
      addToast("error", "Chat fehlgeschlagen", `${message} - mit Retry erneut senden.`);
    } finally {
      setChatPending(false);
    }
  };\<close>
  The handler draws three identifiers: for the user message, for the assistant message and
  for the toast. It runs in two parts, separated by \<^verbatim>\<open>await apiFetch\<close>: the part before
  the request, and the part after it (the rest of the \<^verbatim>\<open>try\<close> block or the \<^verbatim>\<open>catch\<close>
  clause, then \<^verbatim>\<open>finally\<close>). While the request is pending the component renders and other
  handlers and effects run, so the second part works on the state as it is when the
  request completes: \<^verbatim>\<open>setChatHistory((prev) => [...prev, m])\<close> appends to the history
  of that moment, the other setters overwrite.
\<close>

definition sourceCount :: "builtins \<Rightarrow> ChatResponse \<Rightarrow> string" where
  "sourceCount B data =
     String_num B (case answer_sources data of None \<Rightarrow> 0 | Some srcs \<Rightarrow> int (length srcs))"

text \<open>
  The part before the request. The result is the state it leaves and whether the request
  has been issued (\<open>False\<close> for the two early returns).
\<close>

definition askChat_start ::
  "builtins \<Rightarrow> string \<times> string \<times> string \<Rightarrow> string \<Rightarrow> AppState \<Rightarrow> AppState \<times> bool" where
  "askChat_start B uuids question s =
     (let uidUser = fst uuids; uidToast = snd (snd uuids) in
      if noProperty (activePropertyId s) then
        (addToast uidToast ToastError ''Chat fehlgeschlagen''
            (Some (''Keine Property ausgew'' @ a_umlaut @ ''hlt.''))
          (s\<lparr> chatState := UiError,
              chatMessage := ''Keine Property gew'' @ a_umlaut @ ''hlt'',
              chatDetails := ''Bitte zuerst eine Property ausw'' @ a_umlaut @ ''hlen.'' \<rparr>),
         False)
      else if trim B question = [] then
        (addToast uidToast ToastError ''Chat fehlgeschlagen'' (Some ''Bitte Frage eingeben.'')
          (s\<lparr> chatState := UiError, chatMessage := ''Leere Frage'' \<rparr>),
         False)
      else
        (let q = trim B question in
         s\<lparr> lastChatQuestion := q,
            chatHistory := chatHistory s @
              [\<lparr> msg_id = uidUser, role = User, msg_text = q, sources = None,
                 sourceDetails = None \<rparr>],
            chatQuestion := [],
            chatPending := True,
            chatState := UiLoading,
            chatMessage := ''Frage l'' @ a_umlaut @ ''uft...'' \<rparr>,
         True))"

text \<open>
  The part after the request, on the state \<open>t\<close> of the moment the request completes;
  \<open>outcome\<close> is what \<^verbatim>\<open>apiFetch\<close> (lib/api.ts) has done, the body of the answer or the
  error thrown.
\<close>

definition askChat_finish ::
  "builtins \<Rightarrow> string \<times> string \<times> string \<Rightarrow> thrown + ChatResponse \<Rightarrow> AppState \<Rightarrow> AppState" where
  "askChat_finish B uuids outcome t =
     (let uidAssistant = fst (snd uuids); uidToast = snd (snd uuids);
          t2 = (case outcome of
                  Inr data \<Rightarrow>
                    addToast uidToast ToastSuccess ''Chat erfolgreich''
                        (Some (sourceCount B data @ '' Quellen''))
                      (t\<lparr> chatHistory := chatHistory t @
                             [\<lparr> msg_id = uidAssistant, role = Assistant,
                                msg_text = opt_str_or (answer data) [],
                                sources = Some (case answer_sources data of
                                                  None \<Rightarrow> [] | Some srcs \<Rightarrow> srcs),
                                sourceDetails = Some [] \<rparr>],
                           chatState := UiSuccess,
                           chatMessage := ''Antwort erhalten'',
                           chatDetails := sourceCount B data @ '' Quellen im Kontext.'' \<rparr>)
                | Inl e \<Rightarrow>
                    (let message = normalizeApiError e ''Unbekannter Fehler'' in
                     addToast uidToast ToastError ''Chat fehlgeschlagen''
                         (Some (message @ '' - mit Retry erneut senden.''))
                       (t\<lparr> chatHistory := chatHistory t @
                              [\<lparr> msg_id = uidAssistant, role = Assistant,
                                 msg_text = ''Fehler: '' @ message, sources = None,
                                 sourceDetails = None \<rparr>],
                            chatState := UiError,
                            chatMessage := ''Chat fehlgeschlagen'',
                            chatDetails := message \<rparr>)))
      in t2\<lparr> chatPending := False \<rparr>)"

text \<open>
  A whole run of the handler. \<open>between\<close> is what the rest of the application does to the
  state while the request is pending (the identity when nothing else happens); after an
  early return there is no request and nothing in between.
\<close>

definition askChat ::
  "builtins \<Rightarrow> string \<times> string \<times> string \<Rightarrow> string \<Rightarrow> thrown + ChatResponse
     \<Rightarrow> (AppState \<Rightarrow> AppState) \<Rightarrow> AppState \<Rightarrow> AppState" where
  "askChat B uuids question outcome between s =
     (let started = askChat_start B uuids question s in
      if snd started then askChat_finish B uuids outcome (between (fst started))
      else fst started)"

section \<open>State mirrored in localStorage (App.tsx)\<close>

text \<open>
  \<^verbatim>\<open>const BASE_KEY = "ndiah_base_url";
  const CHAT_HISTORY_KEY_PREFIX = "ndiah_chat_history";
  const ACTIVE_PROPERTY_KEY = "ndiah_active_property_id";
  const AUTH_TOKEN_KEY = "ndiah_firebase_id_token";
  const LANGUAGE_KEY = "ndiah_language";
  const DEFAULT_API_BASE =
    (import.meta.env.VITE_API_BASE_URL || "http://127.0.0.1:8000").replace(/\/+$/, "");\<close>
  \<^verbatim>\<open>localStorage\<close> is a map from keys to strings; \<^verbatim>\<open>getItem\<close> of a key that is not
  there is \<^verbatim>\<open>null\<close>. The build-time variable \<^verbatim>\<open>VITE_API_BASE_URL\<close> is an argument.
\<close>

type_synonym Storage = "string \<rightharpoonup> string"

definition BASE_KEY :: string where "BASE_KEY = ''ndiah_base_url''"
definition CHAT_HISTORY_KEY_PREFIX :: string where "CHAT_HISTORY_KEY_PREFIX = ''ndiah_chat_history''"
definition ACTIVE_PROPERTY_KEY :: string where "ACTIVE_PROPERTY_KEY = ''ndiah_active_property_id''"
definition AUTH_TOKEN_KEY :: string where "AUTH_TOKEN_KEY = ''ndiah_firebase_id_token''"
definition LANGUAGE_KEY :: string where "LANGUAGE_KEY = ''ndiah_language''"

definition DEFAULT_API_BASE :: "string option \<Rightarrow> string" where
  "DEFAULT_API_BASE viteApiBaseUrl =
     stripTrailingSlashes (opt_str_or viteApiBaseUrl ''http://127.0.0.1:8000'')"

text \<open>
  The initial values of the state variables, among them
  \<^verbatim>\<open>useState(() => (localStorage.getItem(BASE_KEY) || DEFAULT_API_BASE).replace(/\/+$/, ""))\<close>,
  \<^verbatim>\<open>useState<AppLanguage>(() => parseLanguage(localStorage.getItem(LANGUAGE_KEY)))\<close>,
  \<^verbatim>\<open>useState<number | null>(() => {
    const raw = localStorage.getItem(ACTIVE_PROPERTY_KEY);
    if (!raw) return null;
    const parsed = Number(raw);
    return Number.isFinite(parsed) ? parsed : null;
  })\<close> and \<^verbatim>\<open>useState<ChatMessage[]>([])\<close>.
\<close>

definition initialState :: "builtins \<Rightarrow> string option \<Rightarrow> Storage \<Rightarrow> AppState" where
  "initialState B viteApiBaseUrl ls =
     \<lparr> apiBase = stripTrailingSlashes (opt_str_or (ls BASE_KEY) (DEFAULT_API_BASE viteApiBaseUrl)),
       selectedLanguage = parseLanguage (ls LANGUAGE_KEY),
       currentUser = None,
       properties = [],
       activePropertyId =
         (case ls ACTIVE_PROPERTY_KEY of
            None \<Rightarrow> None
          | Some raw \<Rightarrow> if raw = [] then None else Number_finite B raw),
       documents = [],
       documentStatuses = Map.empty,
       chatState = UiIdle,
       chatMessage = ''Bereit'',
       chatDetails = ''Frage zu indexierten Dokumenten stellen.'',
       chatQuestion = [],
       chatPending = False,
       chatHistory = [],
       lastChatQuestion = [],
       toasts = [] \<rparr>"

text \<open>
  The effects that touch \<^verbatim>\<open>localStorage\<close>, in the order the component declares them.
  \<^verbatim>\<open>useEffect(() => { localStorage.setItem(BASE_KEY, apiBase); }, [apiBase]);
  useEffect(() => { localStorage.setItem(LANGUAGE_KEY, selectedLanguage); }, [selectedLanguage]);
  useEffect(() => { ... localStorage.removeItem(AUTH_TOKEN_KEY); ... }, []);
  useEffect(() => {
    if (activePropertyId == null) { localStorage.removeItem(ACTIVE_PROPERTY_KEY); }
    else { localStorage.setItem(ACTIVE_PROPERTY_KEY, String(activePropertyId)); }
  }, [activePropertyId]);
  useEffect(() => {
    if (!activePropertyId) return;
    localStorage.setItem(`${CHAT_HISTORY_KEY_PREFIX}:${activePropertyId}`,
                         JSON.stringify(chatHistory));
  }, [chatHistory, activePropertyId]);
  useEffect(() => {
    if (!activePropertyId) { setChatHistory([]); return; }
    try {
      const raw = localStorage.getItem(`${CHAT_HISTORY_KEY_PREFIX}:${activePropertyId}`);
      const parsed = raw ? JSON.parse(raw) : [];
      setChatHistory(Array.isArray(parsed) ? parsed : []);
    } catch { setChatHistory([]); }
  }, [activePropertyId]);\<close>
\<close>

definition saveApiBase :: "AppState \<Rightarrow> Storage \<Rightarrow> Storage" where
  "saveApiBase s ls = ls(BASE_KEY \<mapsto> apiBase s)"

definition saveLanguage :: "AppState \<Rightarrow> Storage \<Rightarrow> Storage" where
  "saveLanguage s ls = ls(LANGUAGE_KEY \<mapsto> languageCode (selectedLanguage s))"

definition dropAuthToken :: "Storage \<Rightarrow> Storage" where
  "dropAuthToken ls = ls(AUTH_TOKEN_KEY := None)"

definition saveActiveProperty :: "builtins \<Rightarrow> AppState \<Rightarrow> Storage \<Rightarrow> Storage" where
  "saveActiveProperty B s ls =
     (case activePropertyId s of
        None \<Rightarrow> ls(ACTIVE_PROPERTY_KEY := None)
      | Some n \<Rightarrow> ls(ACTIVE_PROPERTY_KEY \<mapsto> String_num B n))"

definition chatHistoryKey :: "builtins \<Rightarrow> int \<Rightarrow> string" where
  "chatHistoryKey B n = CHAT_HISTORY_KEY_PREFIX @ '':'' @ String_num B n"

definition saveChatHistory :: "builtins \<Rightarrow> AppState \<Rightarrow> Storage \<Rightarrow> Storage" where
  "saveChatHistory B s ls =
     (if noProperty (activePropertyId s) then ls
      else ls(chatHistoryKey B (the (activePropertyId s)) \<mapsto> stringifyHistory B (chatHistory s)))"

definition loadChatHistory :: "builtins \<Rightarrow> Storage \<Rightarrow> AppState \<Rightarrow> AppState" where
  "loadChatHistory B ls s =
     (if noProperty (activePropertyId s) then s\<lparr> chatHistory := [] \<rparr>
      else case ls (chatHistoryKey B (the (activePropertyId s))) of
        None \<Rightarrow> s\<lparr> chatHistory := [] \<rparr>
      | Some raw \<Rightarrow>
          if raw = [] then s\<lparr> chatHistory := [] \<rparr>
          else (case parseHistory B raw of
                  Some parsed \<Rightarrow> s\<lparr> chatHistory := parsed \<rparr>
                | None \<Rightarrow> s\<lparr> chatHistory := [] \<rparr>))"

text \<open>
  The four effects that write the mirrored state, as they run one after the other after a
  render in which their dependencies have changed (each writes only its own key, so an
  effect whose dependency has not changed would write what is there already).
\<close>

definition saveEffects :: "builtins \<Rightarrow> AppState \<Rightarrow> Storage \<Rightarrow> Storage" where
  "saveEffects B s ls =
     saveChatHistory B s (saveActiveProperty B s (saveLanguage s (saveApiBase s ls)))"

text \<open>
  Start of the application: the state is initialised, then all effects run once in their
  order (the writing effects see the initial state), and the chat history that the last
  effect sets makes the effect that saves the chat history run again.
\<close>

definition startup :: "builtins \<Rightarrow> string option \<Rightarrow> Storage \<Rightarrow> AppState \<times> Storage" where
  "startup B viteApiBaseUrl ls =
     (let s0 = initialState B viteApiBaseUrl ls;
          ls1 = saveApiBase s0 ls;
          ls2 = saveLanguage s0 ls1;
          ls3 = dropAuthToken ls2;
          ls4 = saveActiveProperty B s0 ls3;
          ls5 = saveChatHistory B s0 ls4;
          s1 = loadChatHistory B ls5 s0;
          ls6 = saveChatHistory B s1 ls5
      in (s1, ls6))"

text \<open>
  The property selector:
  \<^verbatim>\<open><select value={activePropertyId ?? ""}
     onChange={(e) => setActivePropertyId(e.target.value ? Number(e.target.value) : null)}
     disabled={propertiesPending}>
     <option value="">Property w..hlen...</option>
     {properties.map((p) => (<option key={p.id} value={p.id}>{p.name}</option>))}
  </select>\<close>
  The argument \<open>v\<close> is the id of the option chosen, \<open>None\<close> for the empty option. A value
  that differs from the current one makes the three effects that depend on
  \<^verbatim>\<open>activePropertyId\<close> run after the render, in their order: the selected id is saved,
  the chat history is saved, the chat history is loaded; the history that the last one
  sets makes the saving effect run once more.
\<close>

definition selectProperty :: "builtins \<Rightarrow> int option \<Rightarrow> AppState \<times> Storage \<Rightarrow> AppState \<times> Storage" where
  "selectProperty B v sl =
     (let s = fst sl; ls = snd sl in
      if v = activePropertyId s then (s, ls)
      else let s1 = s\<lparr> activePropertyId := v \<rparr>;
               ls1 = saveActiveProperty B s1 ls;
               ls2 = saveChatHistory B s1 ls1;
               s2 = loadChatHistory B ls2 s1;
               ls3 = saveChatHistory B s2 ls2
           in (s2, ls3))"

section \<open>A sample environment\<close>

text \<open>
  To run the definitions on concrete inputs the built-ins have to be concrete. The sample
  environment lowers the ASCII letters, trims ASCII white space, compares strings by
  character code, knows the timestamps (UTC midnight, in milliseconds) of a few ISO dates
  and treats every other string as an invalid date, counts a day as 86400000 ms, writes
  and reads numbers in decimal, and parses a few JSON texts.
\<close>

definition lower_char :: "char \<Rightarrow> char" where
  "lower_char c =
     (case map_of (zip ''ABCDEFGHIJKLMNOPQRSTUVWXYZ'' ''abcdefghijklmnopqrstuvwxyz'') c of
        Some l \<Rightarrow> l
      | None \<Rightarrow> c)"

definition is_space :: "char \<Rightarrow> bool" where
  "is_space c = ((of_char c :: nat) \<in> set [9, 10, 11, 12, 13, 32])"

fun compare_codes :: "string \<Rightarrow> string \<Rightarrow> int" where
  "compare_codes [] [] = 0"
| "compare_codes [] (y # ys) = -1"
| "compare_codes (x # xs) [] = 1"
| "compare_codes (x # xs) (y # ys) =
     (if (of_char x :: nat) < of_char y then -1
      else if (of_char y :: nat) < of_char x then 1
      else compare_codes xs ys)"

definition sample_dates :: "(string \<times> int) list" where
  "sample_dates =
     [(''2020-01-01'', 1577836800000),
      (''2024-06-01'', 1717200000000),
      (''2025-01-01'', 1735689600000)]"

text \<open>Decimal numerals, for the numbers the application turns into strings.\<close>

fun decimal_nat :: "nat \<Rightarrow> string" where
  "decimal_nat n =
     (if n < 10 then [''0123456789'' ! n]
      else decimal_nat (n div 10) @ [''0123456789'' ! (n mod 10)])"

definition decimal :: "int \<Rightarrow> string" where
  "decimal i = (if i < 0 then CHR ''-'' # decimal_nat (nat (- i)) else decimal_nat (nat i))"

definition digit_value :: "char \<Rightarrow> nat option" where
  "digit_value c = map_of (zip ''0123456789'' [0, 1, 2, 3, 4, 5, 6, 7, 8, 9]) c"

definition read_decimal :: "string \<Rightarrow> int option" where
  "read_decimal s =
     (if s \<noteq> [] \<and> list_all (\<lambda>c. digit_value c \<noteq> None) s
      then Some (int (foldl (\<lambda>n c. 10 * n + the (digit_value c)) 0 s)) else None)"

definition sample_json :: "(string \<times> json) list" where
  "sample_json =
     [(''null'', JNull),
      (''{}'', JObj []),
      (''{\"detail\":\"Not found\"}'', JObj [(''detail'', JStr ''Not found'')]),
      (''{\"status\":\"ok\"}'', JObj [(''status'', JStr ''ok'')])]"

definition sample_builtins :: builtins where
  "sample_builtins =
     \<lparr> toLowerCase = map lower_char,
       trim = (\<lambda>s. rev (dropWhile is_space (rev (dropWhile is_space s)))),
       localeCompare = compare_codes,
       Date_getTime = map_of sample_dates,
       addDays = (\<lambda>t n. t + n * 86400000),
       String_num = decimal,
       Number_finite = read_decimal,
       JSON_parse = map_of sample_json,
       ToString = (\<lambda>v. case v of JStr s \<Rightarrow> s | _ \<Rightarrow> ''[object Object]''),
       stringifyHistory = (\<lambda>h. ''['' @ concat (map (\<lambda>m. ''{'' @ msg_id m @ ''}'') h) @ '']''),
       parseHistory = (\<lambda>s. if s = ''[]'' then Some [] else None) \<rparr>"

definition sample_item :: "string \<Rightarrow> string \<Rightarrow> TimelineItem" where
  "sample_item cat d =
     \<lparr> document_id = None, filename = None, source = None, source_quote = None,
       title = ''Termin'', date_iso = d, time_24h = None, category = cat,
       amount_eur = None, description = ''Beschreibung'' \<rparr>"

text \<open>
  Object 0 is an info entry of 2020-01-01, object 1 a deadline of 2025-01-01, object 2 a
  payment whose date does not parse, every other object an info entry without a date.
\<close>

definition sample_store :: store where
  "sample_store r =
     (if r = 0 then sample_item ''info'' ''2020-01-01''
      else if r = 1 then sample_item ''deadline'' ''2025-01-01''
      else if r = 2 then sample_item ''payment'' ''bald''
      else sample_item ''info'' [])"

text \<open>Three files: a PDF known by its extension only, a text file, and a ZIP archive one
  byte above the limit; and the upload state the component starts in.\<close>

definition sample_pdf :: File where
  "sample_pdf = \<lparr> file_name = ''Plan.PDF'', file_type = [], file_size = 1000 \<rparr>"

definition sample_txt :: File where
  "sample_txt = \<lparr> file_name = ''notes.txt'', file_type = ''text/plain'', file_size = 10 \<rparr>"

definition sample_zip :: File where
  "sample_zip = \<lparr> file_name = ''big.zip'', file_type = ''application/zip'', file_size = 20971521 \<rparr>"

definition initialUpload :: UploadState where
  "initialUpload =
     \<lparr> uploadState = UiIdle, uploadMessage = ''Bereit'',
       uploadDetails = ''PDF oder ZIP ausw'' @ a_umlaut @ ''hlen und hochladen.'',
       selectedFiles = [], uploadErrors = [] \<rparr>"

text \<open>
  A document of property 5, a signed-in state of the application with that property
  selected, and a call of the HTTP client with the default options.
\<close>

definition sample_doc :: DocumentItem where
  "sample_doc =
     \<lparr> doc_document_id = 7, doc_property_id = 5, doc_filename = ''Abrechnung.pdf'',
       uploaded_at = None \<rparr>"

definition sample_app :: AppState where
  "sample_app =
     (initialState sample_builtins None Map.empty)
       \<lparr> currentUser := Some \<lparr> user_id = 1, email = ''eigentuemer@example.org'',
                                user_created_at = None \<rparr>,
         activePropertyId := Some 5 \<rparr>"

definition sample_source :: Source where
  "sample_source =
     \<lparr> source_document_id = 7, source_property_id = Some 5, chunk_id = ''7-0'', page = Some 1,
       score = None \<rparr>"

definition default_options :: ApiCallOptions where
  "default_options = \<lparr> timeoutMs = None, callerSignal = False \<rparr>"

text \<open>A storage that a former session has left behind.\<close>

definition sample_storage :: Storage where
  "sample_storage =
     [BASE_KEY \<mapsto> ''https://api.example.org/'',
      LANGUAGE_KEY \<mapsto> ''fr'',
      ACTIVE_PROPERTY_KEY \<mapsto> ''5'',
      ''ndiah_chat_history:5'' \<mapsto> ''[{u1}{u2}]'']"

section \<open>Properties of the category functions\<close>

text \<open>
  C8. For every input string, normalizeCategory returns the string itself when it is one of
  "meeting", "payment", "deadline", "info", "tax" and returns "info" otherwise; its output
  always lies in that five-element set, it is idempotent, and timelinePriority always
  returns a value in {0,1,2,3,4}.
\<close>

theorem normalizeCategory_spec:
  "normalizeCategory x =
     (if x = ''meeting'' \<or> x = ''payment'' \<or> x = ''deadline'' \<or> x = ''info'' \<or> x = ''tax''
      then x else ''info'')
   \<and> normalizeCategory x \<in> {''meeting'', ''payment'', ''deadline'', ''info'', ''tax''}
   \<and> normalizeCategory (normalizeCategory x) = normalizeCategory x
   \<and> timelinePriority x \<in> {0, 1, 2, 3, 4}"
  by (simp add: normalizeCategory_def timelinePriority_def Let_def)

section \<open>Order of the filtered timeline\<close>

lemma set_sort_insert: "set (sort_insert cmp x ys) = insert x (set ys)"
  by (induction ys) auto

lemma set_Array_sort: "set (Array_sort cmp xs) = set xs"
  by (induction xs) (auto simp: set_sort_insert)

lemma mset_sort_insert: "mset (sort_insert cmp x ys) = add_mset x (mset ys)"
  by (induction ys) auto

lemma mset_Array_sort: "mset (Array_sort cmp xs) = mset xs"
  by (induction xs) (auto simp: mset_sort_insert)

text \<open>
  Inserting into a list sorted by a transitive relation \<open>R\<close> keeps it sorted when the
  comparator decides \<open>R\<close> between the new element and the old ones.
\<close>

lemma sorted_wrt_sort_insert:
  assumes tr: "\<And>a b c. R a b \<Longrightarrow> R b c \<Longrightarrow> R a c"
    and le: "\<And>y. y \<in> set ys \<Longrightarrow> sortCompare cmp x y \<le> 0 \<Longrightarrow> R x y"
    and gt: "\<And>y. y \<in> set ys \<Longrightarrow> \<not> sortCompare cmp x y \<le> 0 \<Longrightarrow> R y x"
    and srt: "sorted_wrt R ys"
  shows "sorted_wrt R (sort_insert cmp x ys)"
  using le gt srt
proof (induction ys)
  case Nil
  then show ?case by simp
next
  case (Cons y ys)
  show ?case
  proof (cases "sortCompare cmp x y \<le> 0")
    case True
    then have xy: "R x y" using Cons.prems(1) by simp
    have "\<forall>z\<in>set ys. R x z"
    proof
      fix z assume "z \<in> set ys"
      then have "R y z" using Cons.prems(3) by simp
      with xy show "R x z" by (rule tr)
    qed
    with True xy Cons.prems(3) show ?thesis by simp
  next
    case False
    then have yx: "R y x" using Cons.prems(2) by simp
    have ih: "sorted_wrt R (sort_insert cmp x ys)"
      using Cons.IH Cons.prems by simp
    from False yx ih Cons.prems(3) show ?thesis
      by (simp add: set_sort_insert)
  qed
qed

lemma sorted_wrt_Array_sort:
  assumes tr: "\<And>a b c. R a b \<Longrightarrow> R b c \<Longrightarrow> R a c"
    and le: "\<And>x y. x \<in> set xs \<Longrightarrow> y \<in> set xs \<Longrightarrow> sortCompare cmp x y \<le> 0 \<Longrightarrow> R x y"
    and gt: "\<And>x y. x \<in> set xs \<Longrightarrow> y \<in> set xs \<Longrightarrow> \<not> sortCompare cmp x y \<le> 0 \<Longrightarrow> R y x"
  shows "sorted_wrt R (Array_sort cmp xs)"
  using le gt
proof (induction xs)
  case Nil
  then show ?case by simp
next
  case (Cons x xs)
  have ih: "sorted_wrt R (Array_sort cmp xs)"
    using Cons by simp
  show ?case
    unfolding Array_sort.simps
    by (rule sorted_wrt_sort_insert [OF tr _ _ ih])
       (use Cons.prems in \<open>auto simp: set_Array_sort\<close>)
qed

lemma timelineCompare_le:
  assumes "Date_getTime B (date_iso (h a)) = Some ta" "Date_getTime B (date_iso (h b)) = Some tb"
    and "sortCompare (timelineCompare B h) a b \<le> 0"
  shows "itemPriority h a < itemPriority h b \<or> (itemPriority h a = itemPriority h b \<and> ta \<le> tb)"
  using assms
  by (auto simp: sortCompare_def timelineCompare_def Let_def split: if_splits)

lemma timelineCompare_gt:
  assumes "Date_getTime B (date_iso (h a)) = Some ta" "Date_getTime B (date_iso (h b)) = Some tb"
    and "\<not> sortCompare (timelineCompare B h) a b \<le> 0"
  shows "itemPriority h b < itemPriority h a \<or> (itemPriority h b = itemPriority h a \<and> tb \<le> ta)"
  using assms
  by (auto simp: sortCompare_def timelineCompare_def Let_def split: if_splits)

text \<open>
  C1 (as stated: the filtered timeline is sorted by date). The comparator orders by
  category priority before it looks at the date: the deadline of 2025-01-01 (object 1) is
  put before the info entry of 2020-01-01 (object 0), although its timestamp is the larger.
\<close>

theorem filteredTimeline_not_date_sorted:
  "filteredTimeline sample_builtins sample_store [0, 1] [] [] = [1, 0]
   \<and> Date_getTime sample_builtins (date_iso (sample_store 1)) = Some 1735689600000
   \<and> Date_getTime sample_builtins (date_iso (sample_store 0)) = Some 1577836800000
   \<and> \<not> (1735689600000 \<le> (1577836800000 :: int))"
  by (simp add: filteredTimeline_def timelineMatches_def timelineCompare_def
      sample_builtins_def sample_dates_def sample_store_def sample_item_def
      timelinePriority_def normalizeCategory_def str_or_def sortCompare_def Let_def)

text \<open>
  C1 (amended). When every date_iso of the list parses to a valid date, the filtered
  timeline is sorted by category priority first and by date within a priority: whenever
  item A precedes item B in the output, either A's priority is smaller than B's, or the
  priorities are equal and A's timestamp is less than or equal to B's.
\<close>

theorem filteredTimeline_sorted:
  assumes valid: "\<forall>r\<in>set timelineItems. Date_getTime B (date_iso (h r)) \<noteq> None"
  shows "sorted_wrt
           (\<lambda>a b. itemPriority h a < itemPriority h b
                 \<or> (itemPriority h a = itemPriority h b
                    \<and> (\<exists>ta tb. Date_getTime B (date_iso (h a)) = Some ta
                            \<and> Date_getTime B (date_iso (h b)) = Some tb \<and> ta \<le> tb)))
           (filteredTimeline B h timelineItems timelineCategory timelineSearch)"
proof -
  let ?R = "\<lambda>a b. itemPriority h a < itemPriority h b
                 \<or> (itemPriority h a = itemPriority h b
                    \<and> (\<exists>ta tb. Date_getTime B (date_iso (h a)) = Some ta
                            \<and> Date_getTime B (date_iso (h b)) = Some tb \<and> ta \<le> tb))"
  have tr: "\<And>a b c. ?R a b \<Longrightarrow> ?R b c \<Longrightarrow> ?R a c"
    by fastforce
  have "sorted_wrt ?R (Array_sort (timelineCompare B h) timelineItems)"
  proof (rule sorted_wrt_Array_sort [of ?R, OF tr])
    fix x y assume x: "x \<in> set timelineItems" and y: "y \<in> set timelineItems"
    from x valid obtain tx where tx: "Date_getTime B (date_iso (h x)) = Some tx"
      by blast
    from y valid obtain ty where ty: "Date_getTime B (date_iso (h y)) = Some ty"
      by blast
    { assume "sortCompare (timelineCompare B h) x y \<le> 0"
      from timelineCompare_le [OF tx ty this] tx ty show "?R x y" by simp }
    { assume "\<not> sortCompare (timelineCompare B h) x y \<le> 0"
      from timelineCompare_gt [OF tx ty this] tx ty show "?R y x" by simp }
  qed
  then show ?thesis
    unfolding filteredTimeline_def by (rule sorted_wrt_filter)
qed

theorem filteredTimeline_sorted_witness:
  "Date_getTime sample_builtins (date_iso (sample_store 0)) = Some 1577836800000
   \<and> Date_getTime sample_builtins (date_iso (sample_store 1)) = Some 1735689600000
   \<and> sorted_wrt
        (\<lambda>a b. itemPriority sample_store a < itemPriority sample_store b
              \<or> (itemPriority sample_store a = itemPriority sample_store b
                 \<and> (\<exists>ta tb. Date_getTime sample_builtins (date_iso (sample_store a)) = Some ta
                         \<and> Date_getTime sample_builtins (date_iso (sample_store b)) = Some tb
                         \<and> ta \<le> tb)))
        (filteredTimeline sample_builtins sample_store [0, 1] [] [])"
proof -
  have t0: "Date_getTime sample_builtins (date_iso (sample_store 0)) = Some 1577836800000"
    and t1: "Date_getTime sample_builtins (date_iso (sample_store 1)) = Some 1735689600000"
    by (simp_all add: sample_builtins_def sample_dates_def sample_store_def sample_item_def)
  then have valid:
    "\<forall>r\<in>set [0, 1]. Date_getTime sample_builtins (date_iso (sample_store r)) \<noteq> None"
    by simp
  from t0 t1 filteredTimeline_sorted [OF valid, of "[]" "[]"] show ?thesis
    by blast
qed

text \<open>
  The first version of the component, which compared the dates first, did sort by date:
  when every date_iso parses, an item that precedes another in its filtered timeline has
  the smaller or the same timestamp.
\<close>

lemma filteredTimeline_v1_date_sorted:
  assumes valid: "\<forall>r\<in>set timelineItems. Date_getTime B (date_iso (h r)) \<noteq> None"
  shows "sorted_wrt
           (\<lambda>a b. \<exists>ta tb. Date_getTime B (date_iso (h a)) = Some ta
                        \<and> Date_getTime B (date_iso (h b)) = Some tb \<and> ta \<le> tb)
           (filteredTimeline_v1 B h timelineItems timelineCategory timelineSearch)"
proof -
  let ?R = "\<lambda>a b. \<exists>ta tb. Date_getTime B (date_iso (h a)) = Some ta
                        \<and> Date_getTime B (date_iso (h b)) = Some tb \<and> ta \<le> tb"
  have tr: "\<And>a b c. ?R a b \<Longrightarrow> ?R b c \<Longrightarrow> ?R a c"
    by fastforce
  have "sorted_wrt ?R (Array_sort (timelineCompare_v1 B h) timelineItems)"
  proof (rule sorted_wrt_Array_sort [of ?R, OF tr])
    fix x y assume x: "x \<in> set timelineItems" and y: "y \<in> set timelineItems"
    from x valid obtain tx where tx: "Date_getTime B (date_iso (h x)) = Some tx"
      by blast
    from y valid obtain ty where ty: "Date_getTime B (date_iso (h y)) = Some ty"
      by blast
    { assume "sortCompare (timelineCompare_v1 B h) x y \<le> 0"
      with tx ty show "?R x y"
        by (auto simp: sortCompare_def timelineCompare_v1_def Let_def split: if_splits) }
    { assume "\<not> sortCompare (timelineCompare_v1 B h) x y \<le> 0"
      with tx ty show "?R y x"
        by (auto simp: sortCompare_def timelineCompare_v1_def Let_def split: if_splits) }
  qed
  then show ?thesis
    unfolding filteredTimeline_v1_def by (rule sorted_wrt_filter)
qed

section \<open>Grouping by date\<close>












section \<open>Current and archived items\<close>

lemma archive_eq:
  "timelineArchiveItems filtered (timelineCurrentItems B start h filtered) =
     filter (\<lambda>r. \<not> timelineIsCurrent B start (addDays B start 60) (addDays B start (- 14))
                       (addDays B start 7) (h r)) filtered"
  unfolding timelineArchiveItems_def timelineCurrentItems_def Let_def
  by (rule filter_cong) auto

lemma invalid_not_current:
  "Date_getTime B (date_iso item) = None \<Longrightarrow> \<not> timelineIsCurrent B s n l i item"
  by (simp add: timelineIsCurrent_def)

text \<open>
  C9. For every filtered timeline list with pairwise-distinct items, timelineCurrentItems
  and timelineArchiveItems partition the list: each item appears in exactly one of the two
  lists (and once there), and every item whose date_iso does not parse as a valid date is
  placed in the archive list, never in the current list.
\<close>

theorem timeline_partition:
  assumes dist: "distinct filtered"
  shows "(let current = timelineCurrentItems B start h filtered;
              archive = timelineArchiveItems filtered current
          in mset current + mset archive = mset filtered
             \<and> distinct current \<and> distinct archive
             \<and> set current \<inter> set archive = {}
             \<and> (\<forall>r \<in> set filtered.
                   (r \<in> set current) \<noteq> (r \<in> set archive)
                   \<and> (Date_getTime B (date_iso (h r)) = None
                        \<longrightarrow> r \<in> set archive \<and> r \<notin> set current)))"
proof -
  let ?P = "\<lambda>r. timelineIsCurrent B start (addDays B start 60) (addDays B start (- 14))
                       (addDays B start 7) (h r)"
  have c: "timelineCurrentItems B start h filtered = filter ?P filtered"
    by (simp add: timelineCurrentItems_def)
  have a: "timelineArchiveItems filtered (timelineCurrentItems B start h filtered) =
             filter (\<lambda>r. \<not> ?P r) filtered"
    by (rule archive_eq)
  have inv: "\<not> ?P r" if "Date_getTime B (date_iso (h r)) = None" for r
    using that by (rule invalid_not_current)
  show ?thesis
    unfolding Let_def a unfolding c using dist inv by auto
qed

theorem timeline_partition_witness:
  "distinct [0, 1, 2, 3 :: nat]
   \<and> timelineCurrentItems sample_builtins 1735000000000 sample_store [0, 1, 2, 3] = [1]
   \<and> timelineArchiveItems [0, 1, 2, 3]
        (timelineCurrentItems sample_builtins 1735000000000 sample_store [0, 1, 2, 3]) = [0, 2, 3]
   \<and> Date_getTime sample_builtins (date_iso (sample_store 2)) = None
   \<and> mset [1] + mset [0, 2, 3] = mset [0, 1, 2, 3 :: nat]"
proof -
  have d: "distinct [0, 1, 2, 3 :: nat]" by simp
  have c: "timelineCurrentItems sample_builtins 1735000000000 sample_store [0, 1, 2, 3] = [1]"
    by (simp add: timelineCurrentItems_def timelineIsCurrent_def sample_builtins_def
        sample_dates_def sample_store_def sample_item_def normalizeCategory_def str_or_def Let_def)
  have n: "Date_getTime sample_builtins (date_iso (sample_store 2)) = None"
    by (simp add: sample_builtins_def sample_dates_def sample_store_def sample_item_def)
  from timeline_partition [OF d, of sample_builtins 1735000000000 sample_store] d c n
  show ?thesis
    by (simp add: Let_def timelineArchiveItems_def)
qed


section \<open>Validation of the selected files\<close>

lemma validateStep_eq:
  "validateStep B f (valid, errors) =
     (if fileAccepted B f then (valid @ [f], errors)
      else (valid, errors @ [file_name f @ (if isPdfOrZip B f then msg_too_large else msg_not_allowed)]))"
  by (auto simp: validateStep_def fileAccepted_def isPdfOrZip_def Let_def)

lemma fold_validateStep:
  "fold (validateStep B) files (valid, errors) =
     (valid @ filter (fileAccepted B) files,
      errors @ map (\<lambda>f. file_name f @ (if isPdfOrZip B f then msg_too_large else msg_not_allowed))
                 (filter (\<lambda>f. \<not> fileAccepted B f) files))"
  by (induction files arbitrary: valid errors) (simp_all add: validateStep_eq)

lemma validateFiles_filter:
  "validateFiles B files =
     (filter (fileAccepted B) files,
      map (\<lambda>f. file_name f @ (if isPdfOrZip B f then msg_too_large else msg_not_allowed))
        (filter (\<lambda>f. \<not> fileAccepted B f) files))"
  by (simp add: validateFiles_def fold_validateStep)

text \<open>
  C2. For every list of candidate files, validateFiles places a file in the valid list if
  and only if its MIME type or lowercase filename extension identifies it as a PDF or ZIP
  and its size is at most 20 * 1024 * 1024 bytes; every other file produces exactly one
  error message, so the valid list and the error list together account for every input
  file.
\<close>

theorem validateFiles_spec:
  "fst (validateFiles B files) =
     filter (\<lambda>f. (file_type f = ''application/pdf''
                  \<or> endsWith (toLowerCase B (file_name f)) ''.pdf''
                  \<or> file_type f = ''application/zip''
                  \<or> file_type f = ''application/x-zip-compressed''
                  \<or> endsWith (toLowerCase B (file_name f)) ''.zip'')
                 \<and> file_size f \<le> 20 * 1024 * 1024) files
   \<and> length (snd (validateFiles B files)) = length (filter (\<lambda>f. \<not> fileAccepted B f) files)
   \<and> fileAccepted B =
       (\<lambda>f. (file_type f = ''application/pdf''
                  \<or> endsWith (toLowerCase B (file_name f)) ''.pdf''
                  \<or> file_type f = ''application/zip''
                  \<or> file_type f = ''application/x-zip-compressed''
                  \<or> endsWith (toLowerCase B (file_name f)) ''.zip'')
                 \<and> file_size f \<le> 20 * 1024 * 1024)
   \<and> length (fst (validateFiles B files)) + length (snd (validateFiles B files)) = length files"
proof -
  have acc: "fileAccepted B =
       (\<lambda>f. (file_type f = ''application/pdf''
                  \<or> endsWith (toLowerCase B (file_name f)) ''.pdf''
                  \<or> file_type f = ''application/zip''
                  \<or> file_type f = ''application/x-zip-compressed''
                  \<or> endsWith (toLowerCase B (file_name f)) ''.zip'')
                 \<and> file_size f \<le> 20 * 1024 * 1024)"
    by (simp add: fun_eq_iff fileAccepted_def isPdfOrZip_def MAX_FILE_SIZE_def)
  have len: "length (filter (fileAccepted B) files) + length (filter (\<lambda>f. \<not> fileAccepted B f) files)
      = length files"
    by (rule sum_length_filter_compl)
  show ?thesis
    using len unfolding validateFiles_filter fst_conv snd_conv length_map
    by (simp add: acc)
qed

theorem validateFiles_spec_witness:
  "validateFiles sample_builtins [sample_pdf, sample_txt, sample_zip] =
     ([sample_pdf], [''notes.txt'' @ msg_not_allowed, ''big.zip'' @ msg_too_large])
   \<and> length [sample_pdf] + length [''notes.txt'' @ msg_not_allowed, ''big.zip'' @ msg_too_large]
       = length [sample_pdf, sample_txt, sample_zip]"
proof -
  have e: "validateFiles sample_builtins [sample_pdf, sample_txt, sample_zip] =
     ([sample_pdf], [''notes.txt'' @ msg_not_allowed, ''big.zip'' @ msg_too_large])"
    by (simp add: validateFiles_def validateStep_def sample_pdf_def sample_txt_def sample_zip_def
        sample_builtins_def endsWith_def lower_char_def MAX_FILE_SIZE_def Let_def)
  note validateFiles_spec [of sample_builtins "[sample_pdf, sample_txt, sample_zip]",
      THEN conjunct2, THEN conjunct2, THEN conjunct2]
  then show ?thesis unfolding e by simp
qed

section \<open>The file selection\<close>

lemma keys_Map_set:
  "map fst (Map_set m k v) = (if k \<in> set (map fst m) then map fst m else map fst m @ [k])"
  by (induction m) (force simp: )+

lemma set_Map_set: "set (Map_set m k v) \<subseteq> insert (k, v) (set m)"
proof (induction m)
  case Nil
  then show ?case by simp
next
  case (Cons a m)
  obtain k' v' where a: "a = (k', v')" by (cases a)
  show ?case
  proof (cases "k' = k")
    case True
    with a show ?thesis by auto
  next
    case False
    with a Cons show ?thesis by auto
  qed
qed

lemma keyed_Map_set:
  assumes "keyed B m" "fileAccepted B f"
  shows "keyed B (Map_set m (fileKey B f) f)"
proof -
  from assms(1) have d: "distinct (map fst (Map_set m (fileKey B f) f))"
    by (simp add: keyed_def keys_Map_set)
  have "k = fileKey B g \<and> fileAccepted B g" if "(k, g) \<in> set (Map_set m (fileKey B f) f)" for k g
  proof -
    from that set_Map_set [of m "fileKey B f" f]
    have "(k, g) = (fileKey B f, f) \<or> (k, g) \<in> set m" by blast
    with assms show ?thesis by (auto simp: keyed_def)
  qed
  with d show ?thesis unfolding keyed_def by blast
qed

lemma keyed_fold_set:
  assumes "keyed B m" "\<forall>f \<in> set fs. fileAccepted B f"
  shows "keyed B (fold (\<lambda>file m. Map_set m (fileKey B file) file) fs m)"
  using assms by (induction fs arbitrary: m) (simp_all add: keyed_Map_set)

lemma keyed_entries:
  assumes "keyed B m0" "\<forall>f \<in> set fs. fileAccepted B f"
  shows "keyed B (fold (\<lambda>(k, v) m. Map_set m k v) (map (\<lambda>f. (fileKey B f, f)) fs) m0)"
  using assms by (induction fs arbitrary: m0) (simp_all add: keyed_Map_set)

lemma keyed_values:
  assumes "keyed B m"
  shows "(\<forall>f \<in> set (map snd m). fileAccepted B f) \<and> distinct (map (fileKey B) (map snd m))"
proof -
  from assms have eq: "map (fileKey B) (map snd m) = map fst m"
    by (auto simp: keyed_def)
  from assms have "distinct (map fst m)" by (simp add: keyed_def)
  then have "distinct (map (fileKey B) (map snd m))" by (simp only: eq)
  moreover from assms have "\<forall>f \<in> set (map snd m). fileAccepted B f"
    by (auto simp: keyed_def)
  ultimately show ?thesis by blast
qed

lemma mergeSelected_inv:
  assumes "\<forall>f \<in> set prev. fileAccepted B f" "\<forall>f \<in> set valid. fileAccepted B f"
  shows "(\<forall>f \<in> set (mergeSelected B valid prev). fileAccepted B f)
         \<and> distinct (map (fileKey B) (mergeSelected B valid prev))"
proof -
  have "keyed B []" by (simp add: keyed_def)
  then have "keyed B (Map_of_entries (map (\<lambda>f. (fileKey B f, f)) prev))"
    unfolding Map_of_entries_def using assms(1) by (rule keyed_entries)
  then have "keyed B (fold (\<lambda>file m. Map_set m (fileKey B file) file) valid
                (Map_of_entries (map (\<lambda>f. (fileKey B f, f)) prev)))"
    using assms(2) by (rule keyed_fold_set)
  then show ?thesis
    unfolding mergeSelected_def by (rule keyed_values)
qed

lemma selectedFiles_addFiles:
  "selectedFiles (addFiles B files s) = mergeSelected B (filter (fileAccepted B) files) (selectedFiles s)"
  by (simp add: addFiles_def Let_def validateFiles_filter)

lemma reachableSelection_inv:
  assumes "reachableSelection B fs"
  shows "(\<forall>f \<in> set fs. fileAccepted B f) \<and> distinct (map (fileKey B) fs)"
  using assms
proof (induction rule: reachableSelection.induct)
  case initial
  then show ?case by simp
next
  case (added prev files s)
  have v: "\<forall>f \<in> set (filter (fileAccepted B) files). fileAccepted B f" by simp
  from added.IH have p: "\<forall>f \<in> set prev. fileAccepted B f" by blast
  have "selectedFiles (addFiles B files (s\<lparr>selectedFiles := prev\<rparr>)) =
          mergeSelected B (filter (fileAccepted B) files) prev"
    by (simp add: selectedFiles_addFiles)
  with mergeSelected_inv [OF p v] show ?case by simp
next
  case (uploaded prev)
  then show ?case by simp
qed

text \<open>
  C6 (as stated: no validation or normalisation constraint is maintained client-side, the
  client state being unmodified copies of server responses). The file selection is client
  state that no server response fills, and \<^verbatim>\<open>addFiles\<close> keeps a file out of it that fails
  the checks: a text file offered to the component in its initial state is refused with
  an error message and the selection stays empty.
\<close>

theorem addFiles_refuses_text_file:
  "selectedFiles (addFiles sample_builtins [sample_txt] initialUpload) = []
   \<and> uploadErrors (addFiles sample_builtins [sample_txt] initialUpload)
       = [''notes.txt: nur PDF- oder ZIP-Dateien sind erlaubt.'']
   \<and> uploadState (addFiles sample_builtins [sample_txt] initialUpload) = UiError"
  by (simp add: addFiles_def mergeSelected_def Map_of_entries_def validateFiles_def
      validateStep_def initialUpload_def sample_txt_def sample_builtins_def endsWith_def
      lower_char_def msg_not_allowed_def Let_def)

text \<open>
  C6 (amended). The client does maintain a validation constraint of its own on state that
  is not a copy of a server response: in every state the file selection can reach (the
  empty selection, files added by addFiles, the selection emptied after an upload), every
  selected file has passed the checks of validateFiles (PDF or ZIP by MIME type or
  lower-cased extension, at most 20 * 1024 * 1024 bytes), and no two selected files have
  the same key name:size.
\<close>

theorem selection_invariant:
  assumes "reachableSelection B fs"
  shows "(\<forall>f \<in> set fs. isPdfOrZip B f \<and> file_size f \<le> 20 * 1024 * 1024)
         \<and> distinct (map (fileKey B) fs)"
  using reachableSelection_inv [OF assms]
  by (simp add: fileAccepted_def MAX_FILE_SIZE_def)

theorem selection_invariant_witness:
  "reachableSelection sample_builtins [sample_pdf]
   \<and> isPdfOrZip sample_builtins sample_pdf
   \<and> file_size sample_pdf \<le> 20 * 1024 * 1024"
proof -
  have e: "selectedFiles (addFiles sample_builtins [sample_pdf, sample_txt]
             (initialUpload\<lparr> selectedFiles := [] \<rparr>)) = [sample_pdf]"
    by (simp add: addFiles_def mergeSelected_def Map_of_entries_def validateFiles_def
        validateStep_def initialUpload_def sample_pdf_def sample_txt_def sample_builtins_def
        endsWith_def lower_char_def fileKey_def MAX_FILE_SIZE_def Let_def)
  have r: "reachableSelection sample_builtins [sample_pdf]"
    using reachableSelection.added [OF reachableSelection.initial,
        of sample_builtins "[sample_pdf, sample_txt]" initialUpload]
    by (simp only: e)
  from selection_invariant [OF r] r show ?thesis by simp
qed

section \<open>The HTTP client\<close>

text \<open>
  The promise resolves exactly for a response with an OK status whose body has been read,
  and then with the parsed body; in every other case it rejects, with an \<open>ApiError\<close>.
\<close>

lemma apiCall_resolves_iff:
  "apiCall B options clock res = Inr r \<longleftrightarrow>
     (\<exists>st raw. res = FetchResolves st (BodyText raw) \<and> resp_ok st
        \<and> r = \<lparr> result_data = parseResponse B raw, result_latencyMs = max 1 (fst clock),
                 result_status = st \<rparr>)"
  by (auto simp: apiCall_def apiCall_try_def Let_def
      split: fetch_result.splits body_result.splits sum.splits)

text \<open>
  An abort (an error named \<^verbatim>\<open>AbortError\<close>, while the request or the body is pending)
  rejects with the timeout error, \<open>isTimeout\<close> set.
\<close>

lemma apiCall_abort_is_timeout:
  assumes "thrown_name t = Some ''AbortError''"
  shows "apiCall B options clock (FetchRejects t)
           = Inl (new_ApiError timeout_message None (Some True) (Some (max 1 (snd clock))))"
    and "apiCall B options clock (FetchResolves st (BodyRejects t))
           = Inl (new_ApiError timeout_message None (Some True) (Some (max 1 (snd clock))))"
  using assms by (simp_all add: apiCall_def apiCall_try_def apiCall_catch_def Let_def)

text \<open>
  A response that is not OK and whose body does not parse to \<^verbatim>\<open>null\<close> rejects with an
  error that carries the status.
\<close>

lemma errorMessage_not_null:
  assumes "body \<noteq> JNull"
  shows "\<exists>msg. errorMessage B body st = Inr msg"
  using assms by (cases body) (simp_all add: errorMessage_def)

lemma apiCall_not_ok_keeps_status:
  assumes "\<not> resp_ok st" "parseResponse B raw \<noteq> JNull"
  shows "\<exists>msg. apiCall B options clock (FetchResolves st (BodyText raw))
           = Inl \<lparr> message = msg, status = Some st, isTimeout = False,
                    latencyMs = Some (max 1 (fst clock)) \<rparr>"
proof -
  from errorMessage_not_null [OF assms(2)] obtain msg
    where "errorMessage B (parseResponse B raw) st = Inr msg" by blast
  with assms(1) show ?thesis
    by (simp add: apiCall_def apiCall_try_def apiCall_catch_def new_ApiError_def Let_def)
qed


text \<open>
  C3. Every request made through apiCall either resolves with the parsed body of a
  response whose status is OK, or rejects with an ApiError; an abort by the timeout rejects
  with isTimeout = true; and a response with a non-OK status always rejects with an
  ApiError carrying that status code. The last part fails for a body that is the JSON text
  \<^verbatim>\<open>null\<close>: reading \<^verbatim>\<open>body.detail\<close> throws a \<^verbatim>\<open>TypeError\<close> inside the \<^verbatim>\<open>try\<close>
  block, and the \<^verbatim>\<open>catch\<close> clause wraps it in an ApiError without a status. For the
  response 500 with body \<^verbatim>\<open>null\<close> the call rejects with status undefined.
\<close>

theorem apiCall_null_body_loses_status:
  "apiCall sample_builtins default_options (120, 121) (FetchResolves 500 (BodyText ''null''))
     = Inl \<lparr> message = ''Cannot read properties of null (reading '' @ [CHR 0x27] @ ''detail''
                           @ [CHR 0x27] @ '')'',
              status = None, isTimeout = False, latencyMs = Some 121 \<rparr>"
  by (simp add: apiCall_def apiCall_try_def apiCall_catch_def parseResponse_def errorMessage_def
      resp_ok_def new_ApiError_def sample_builtins_def sample_json_def opt_str_or_def str_or_def Let_def)

section \<open>The chat history\<close>

lemma sample_app_history: "chatHistory sample_app = [] \<and> activePropertyId sample_app = Some 5"
  by (simp add: sample_app_def initialState_def)

lemma askChat_start_history:
  "chatHistory (fst (askChat_start B uuids question s)) =
     (if noProperty (activePropertyId s) \<or> trim B question = [] then chatHistory s
      else chatHistory s @
             [\<lparr> msg_id = fst uuids, role = User, msg_text = trim B question,
                 sources = None, sourceDetails = None \<rparr>])"
  "snd (askChat_start B uuids question s) =
     (\<not> noProperty (activePropertyId s) \<and> trim B question \<noteq> [])"
  by (simp_all add: askChat_start_def addToast_def Let_def)

lemma askChat_finish_history:
  "chatHistory (askChat_finish B uuids (Inr response) t) =
     chatHistory t @
       [\<lparr> msg_id = fst (snd uuids), role = Assistant,
           msg_text = (case answer response of None \<Rightarrow> [] | Some a \<Rightarrow> a),
           sources = Some (case answer_sources response of None \<Rightarrow> [] | Some srcs \<Rightarrow> srcs),
           sourceDetails = Some [] \<rparr>]"
  "chatHistory (askChat_finish B uuids (Inl e) t) =
     chatHistory t @
       [\<lparr> msg_id = fst (snd uuids), role = Assistant,
           msg_text = ''Fehler: '' @ normalizeApiError e ''Unbekannter Fehler'',
           sources = None, sourceDetails = None \<rparr>]"
  by (simp_all add: askChat_finish_def addToast_def Let_def opt_str_or_def str_or_def
      split: option.splits)

text \<open>
  C4 (as stated: askChat updates the chat history atomically, appending exactly two
  messages). The two messages are appended by two updates, one before and one after the
  request, and the history can change in between. A signed-in user with property 5
  selected and an empty history asks a question and, while the request is pending, chooses
  the empty option of the property selector: the effect on the selected property empties
  the history, and when the answer arrives the history holds the assistant message alone.
\<close>

theorem askChat_not_atomic:
  "chatHistory sample_app = []
   \<and> chatHistory
        (askChat sample_builtins (''u1'', ''u2'', ''u3'') ''  Wann ist die Versammlung? ''
           (Inr \<lparr> answer = Some ''Am 1. Juni.'', answer_sources = Some [sample_source] \<rparr>)
           (\<lambda>t. fst (selectProperty sample_builtins None (t, Map.empty)))
           sample_app)
       = [\<lparr> msg_id = ''u2'', role = Assistant, msg_text = ''Am 1. Juni.'',
            sources = Some [sample_source], sourceDetails = Some [] \<rparr>]"
proof -
  have t: "trim sample_builtins ''  Wann ist die Versammlung? '' = ''Wann ist die Versammlung?''"
    by (simp add: sample_builtins_def is_space_def)
  have np: "\<not> noProperty (activePropertyId sample_app)"
    by (simp add: sample_app_history noProperty_def)
  have st: "snd (askChat_start sample_builtins (''u1'', ''u2'', ''u3'')
                   ''  Wann ist die Versammlung? '' sample_app)"
    using np t by (simp add: askChat_start_history)
  have a: "activePropertyId (fst (askChat_start sample_builtins (''u1'', ''u2'', ''u3'')
                   ''  Wann ist die Versammlung? '' sample_app)) = Some 5"
    using np t by (simp add: askChat_start_def Let_def sample_app_history)
  have sel: "chatHistory (fst (selectProperty sample_builtins None
               (askChat_start_state, Map.empty))) = []"
    if "activePropertyId askChat_start_state = Some 5" for askChat_start_state
    using that
    by (simp add: selectProperty_def Let_def loadChatHistory_def noProperty_def)
  show ?thesis
    using st sel [OF a]
    by (simp add: askChat_def Let_def askChat_finish_history sample_app_history)
qed

text \<open>
  C4 (amended). askChat updates the chat history in two steps, one on each side of the
  request. If the trimmed question is empty or no property is selected, no request is made
  and the chat history is left unchanged. Otherwise the first step appends the user
  message carrying the trimmed question, and when the request completes the second step
  appends exactly one assistant message to the history as it stands then: on success the
  message carries the answer text and the cited sources returned by the server (the empty
  text or the empty list for a field the answer lacks), on failure an error text and no
  sources. When nothing changes the chat history while the request is pending, the result
  is the history before the call followed by these two messages.
\<close>

theorem askChat_two_steps:
  "(noProperty (activePropertyId s) \<or> trim B question = []
      \<longrightarrow> chatHistory (askChat B uuids question outcome between s) = chatHistory s)
   \<and> (\<not> noProperty (activePropertyId s) \<and> trim B question \<noteq> [] \<longrightarrow>
        chatHistory (fst (askChat_start B uuids question s)) =
          chatHistory s @
            [\<lparr> msg_id = fst uuids, role = User, msg_text = trim B question,
                sources = None, sourceDetails = None \<rparr>]
        \<and> (\<forall>response. outcome = Inr response \<longrightarrow>
             chatHistory (askChat B uuids question outcome between s) =
               chatHistory (between (fst (askChat_start B uuids question s))) @
                 [\<lparr> msg_id = fst (snd uuids), role = Assistant,
                     msg_text = (case answer response of None \<Rightarrow> [] | Some a \<Rightarrow> a),
                     sources = Some (case answer_sources response of
                                       None \<Rightarrow> [] | Some srcs \<Rightarrow> srcs),
                     sourceDetails = Some [] \<rparr>])
        \<and> (\<forall>e. outcome = Inl e \<longrightarrow>
             chatHistory (askChat B uuids question outcome between s) =
               chatHistory (between (fst (askChat_start B uuids question s))) @
                 [\<lparr> msg_id = fst (snd uuids), role = Assistant,
                     msg_text = ''Fehler: '' @ normalizeApiError e ''Unbekannter Fehler'',
                     sources = None, sourceDetails = None \<rparr>])
        \<and> (chatHistory (between (fst (askChat_start B uuids question s)))
              = chatHistory (fst (askChat_start B uuids question s)) \<longrightarrow>
            (\<forall>response. outcome = Inr response \<longrightarrow>
               chatHistory (askChat B uuids question outcome between s) =
                 chatHistory s @
                   [\<lparr> msg_id = fst uuids, role = User, msg_text = trim B question,
                       sources = None, sourceDetails = None \<rparr>,
                    \<lparr> msg_id = fst (snd uuids), role = Assistant,
                       msg_text = (case answer response of None \<Rightarrow> [] | Some a \<Rightarrow> a),
                       sources = Some (case answer_sources response of
                                         None \<Rightarrow> [] | Some srcs \<Rightarrow> srcs),
                       sourceDetails = Some [] \<rparr>])
            \<and> (\<forall>e. outcome = Inl e \<longrightarrow>
               chatHistory (askChat B uuids question outcome between s) =
                 chatHistory s @
                   [\<lparr> msg_id = fst uuids, role = User, msg_text = trim B question,
                       sources = None, sourceDetails = None \<rparr>,
                    \<lparr> msg_id = fst (snd uuids), role = Assistant,
                       msg_text = ''Fehler: '' @ normalizeApiError e ''Unbekannter Fehler'',
                       sources = None, sourceDetails = None \<rparr>])))"
proof (intro conjI impI allI)
  assume "noProperty (activePropertyId s) \<or> trim B question = []"
  then show "chatHistory (askChat B uuids question outcome between s) = chatHistory s"
    by (auto simp: askChat_def Let_def askChat_start_history)
next
  assume "\<not> noProperty (activePropertyId s) \<and> trim B question \<noteq> []"
  then show "chatHistory (fst (askChat_start B uuids question s)) =
          chatHistory s @
            [\<lparr> msg_id = fst uuids, role = User, msg_text = trim B question,
                sources = None, sourceDetails = None \<rparr>]"
    by (simp add: askChat_start_history)
next
  fix response
  assume "\<not> noProperty (activePropertyId s) \<and> trim B question \<noteq> []" "outcome = Inr response"
  then show "chatHistory (askChat B uuids question outcome between s) =
               chatHistory (between (fst (askChat_start B uuids question s))) @
                 [\<lparr> msg_id = fst (snd uuids), role = Assistant,
                     msg_text = (case answer response of None \<Rightarrow> [] | Some a \<Rightarrow> a),
                     sources = Some (case answer_sources response of
                                       None \<Rightarrow> [] | Some srcs \<Rightarrow> srcs),
                     sourceDetails = Some [] \<rparr>]"
    by (simp add: askChat_def Let_def askChat_start_history askChat_finish_history)
next
  fix e
  assume "\<not> noProperty (activePropertyId s) \<and> trim B question \<noteq> []" "outcome = Inl e"
  then show "chatHistory (askChat B uuids question outcome between s) =
               chatHistory (between (fst (askChat_start B uuids question s))) @
                 [\<lparr> msg_id = fst (snd uuids), role = Assistant,
                     msg_text = ''Fehler: '' @ normalizeApiError e ''Unbekannter Fehler'',
                     sources = None, sourceDetails = None \<rparr>]"
    by (simp add: askChat_def Let_def askChat_start_history askChat_finish_history)
next
  fix response
  assume "\<not> noProperty (activePropertyId s) \<and> trim B question \<noteq> []"
    "chatHistory (between (fst (askChat_start B uuids question s)))
       = chatHistory (fst (askChat_start B uuids question s))"
    "outcome = Inr response"
  then show "chatHistory (askChat B uuids question outcome between s) =
                 chatHistory s @
                   [\<lparr> msg_id = fst uuids, role = User, msg_text = trim B question,
                       sources = None, sourceDetails = None \<rparr>,
                    \<lparr> msg_id = fst (snd uuids), role = Assistant,
                       msg_text = (case answer response of None \<Rightarrow> [] | Some a \<Rightarrow> a),
                       sources = Some (case answer_sources response of
                                         None \<Rightarrow> [] | Some srcs \<Rightarrow> srcs),
                       sourceDetails = Some [] \<rparr>]"
    by (simp add: askChat_def Let_def askChat_start_history askChat_finish_history)
next
  fix e
  assume "\<not> noProperty (activePropertyId s) \<and> trim B question \<noteq> []"
    "chatHistory (between (fst (askChat_start B uuids question s)))
       = chatHistory (fst (askChat_start B uuids question s))"
    "outcome = Inl e"
  then show "chatHistory (askChat B uuids question outcome between s) =
                 chatHistory s @
                   [\<lparr> msg_id = fst uuids, role = User, msg_text = trim B question,
                       sources = None, sourceDetails = None \<rparr>,
                    \<lparr> msg_id = fst (snd uuids), role = Assistant,
                       msg_text = ''Fehler: '' @ normalizeApiError e ''Unbekannter Fehler'',
                       sources = None, sourceDetails = None \<rparr>]"
    by (simp add: askChat_def Let_def askChat_start_history askChat_finish_history)
qed

theorem askChat_two_steps_witness:
  "chatHistory (askChat sample_builtins (''u1'', ''u2'', ''u3'') ''  Wann ist die Versammlung? ''
      (Inr \<lparr> answer = Some ''Am 1. Juni.'', answer_sources = Some [sample_source] \<rparr>)
      (\<lambda>t. t) sample_app)
     = [\<lparr> msg_id = ''u1'', role = User, msg_text = ''Wann ist die Versammlung?'',
          sources = None, sourceDetails = None \<rparr>,
        \<lparr> msg_id = ''u2'', role = Assistant, msg_text = ''Am 1. Juni.'',
          sources = Some [sample_source], sourceDetails = Some [] \<rparr>]
   \<and> chatHistory (askChat sample_builtins (''u1'', ''u2'', ''u3'') ''   ''
      (Inr \<lparr> answer = Some ''Am 1. Juni.'', answer_sources = Some [sample_source] \<rparr>)
      (\<lambda>t. t) sample_app)
     = []
   \<and> chatHistory (askChat sample_builtins (''u1'', ''u2'', ''u3'') ''  Wann ist die Versammlung? ''
      (Inl (ThrownApiError (new_ApiError ''HTTP 500'' (Some 500) None None)))
      (\<lambda>t. t) sample_app)
     = [\<lparr> msg_id = ''u1'', role = User, msg_text = ''Wann ist die Versammlung?'',
          sources = None, sourceDetails = None \<rparr>,
        \<lparr> msg_id = ''u2'', role = Assistant, msg_text = ''Fehler: HTTP 500'',
          sources = None, sourceDetails = None \<rparr>]"
proof -
  have t1: "trim sample_builtins ''  Wann ist die Versammlung? '' = ''Wann ist die Versammlung?''"
    by (simp add: sample_builtins_def is_space_def)
  have t2: "trim sample_builtins ''   '' = []"
    by (simp add: sample_builtins_def is_space_def)
  have np: "\<not> noProperty (activePropertyId sample_app)"
    by (simp add: sample_app_history noProperty_def)
  note a = askChat_two_steps [of sample_app sample_builtins "''  Wann ist die Versammlung? ''"
      "(''u1'', ''u2'', ''u3'')"
      "Inr \<lparr> answer = Some ''Am 1. Juni.'', answer_sources = Some [sample_source] \<rparr>"
      "\<lambda>t. t"]
  note b = askChat_two_steps [of sample_app sample_builtins "''   ''"
      "(''u1'', ''u2'', ''u3'')"
      "Inr \<lparr> answer = Some ''Am 1. Juni.'', answer_sources = Some [sample_source] \<rparr>"
      "\<lambda>t. t"]
  note c = askChat_two_steps [of sample_app sample_builtins "''  Wann ist die Versammlung? ''"
      "(''u1'', ''u2'', ''u3'')"
      "Inl (ThrownApiError (new_ApiError ''HTTP 500'' (Some 500) None None))"
      "\<lambda>t. t"]
  from a np t1 have 1:
    "chatHistory (askChat sample_builtins (''u1'', ''u2'', ''u3'') ''  Wann ist die Versammlung? ''
      (Inr \<lparr> answer = Some ''Am 1. Juni.'', answer_sources = Some [sample_source] \<rparr>)
      (\<lambda>t. t) sample_app)
     = [\<lparr> msg_id = ''u1'', role = User, msg_text = ''Wann ist die Versammlung?'',
          sources = None, sourceDetails = None \<rparr>,
        \<lparr> msg_id = ''u2'', role = Assistant, msg_text = ''Am 1. Juni.'',
          sources = Some [sample_source], sourceDetails = Some [] \<rparr>]"
    by (simp add: sample_app_history)
  from b t2 have 2:
    "chatHistory (askChat sample_builtins (''u1'', ''u2'', ''u3'') ''   ''
      (Inr \<lparr> answer = Some ''Am 1. Juni.'', answer_sources = Some [sample_source] \<rparr>)
      (\<lambda>t. t) sample_app)
     = []"
    by (simp add: sample_app_history)
  from c np t1 have 3:
    "chatHistory (askChat sample_builtins (''u1'', ''u2'', ''u3'') ''  Wann ist die Versammlung? ''
      (Inl (ThrownApiError (new_ApiError ''HTTP 500'' (Some 500) None None)))
      (\<lambda>t. t) sample_app)
     = [\<lparr> msg_id = ''u1'', role = User, msg_text = ''Wann ist die Versammlung?'',
          sources = None, sourceDetails = None \<rparr>,
        \<lparr> msg_id = ''u2'', role = Assistant, msg_text = ''Fehler: HTTP 500'',
          sources = None, sourceDetails = None \<rparr>]"
    by (simp add: sample_app_history new_ApiError_def str_or_def)
  from 1 2 3 show ?thesis by blast
qed

section \<open>The status of a document\<close>

lemma defaultStatuses_apply:
  "defaultStatuses docs prev i =
     (if prev i = None \<and> i \<in> doc_document_id ` set docs then Some Indexed else prev i)"
  unfolding defaultStatuses_def
  by (induction docs arbitrary: prev) auto

text \<open>
  C7 (as stated: every Document value received from the server exposes a status field).
  \<open>DocumentItem\<close> has the fields document_id, property_id, filename and uploaded_at; the
  status that the application shows for a document is not part of the value received. The
  same document, received in the same response, is shown as indexed by a client that has
  no status for it and as failed by a client that has recorded a failure for its id.
\<close>

theorem status_is_client_state:
  "shownStatus (documentStatuses (loadDocuments (Inr (Some [sample_doc])) sample_app)) sample_doc
     = Indexed
   \<and> shownStatus (documentStatuses (loadDocuments (Inr (Some [sample_doc]))
        (sample_app\<lparr> documentStatuses := [7 \<mapsto> Failed] \<rparr>))) sample_doc
     = Failed"
  by (simp add: loadDocuments_def defaultStatuses_def shownStatus_def sample_app_def
      initialState_def sample_doc_def noProperty_def Let_def)

text \<open>
  C7 (amended). The Document entity exchanged over HTTP is a plain DTO carrying the
  document id, the property id, the filename and the upload timestamp; it carries no
  status. The status of a document is client state (documentStatuses, keyed by the
  document id): when a signed-in client with a property selected loads the documents,
  the documents it holds are those received, every received document has a status
  afterwards, namely the status the upload card showed for it before (the recorded one,
  or "indexed" when none was recorded), and the statuses of other ids are unchanged.
\<close>

theorem loadDocuments_statuses:
  assumes "currentUser s \<noteq> None" "\<not> noProperty (activePropertyId s)"
  shows "documents (loadDocuments (Inr (Some docs)) s) = docs
         \<and> (\<forall>d \<in> set docs.
               documentStatuses (loadDocuments (Inr (Some docs)) s) (doc_document_id d)
                 = Some (shownStatus (documentStatuses s) d)
               \<and> shownStatus (documentStatuses (loadDocuments (Inr (Some docs)) s)) d
                 = shownStatus (documentStatuses s) d)
         \<and> (\<forall>i. i \<notin> doc_document_id ` set docs \<longrightarrow>
               documentStatuses (loadDocuments (Inr (Some docs)) s) i = documentStatuses s i)"
  using assms
  by (auto simp: loadDocuments_def defaultStatuses_apply shownStatus_def Let_def split: option.splits)

theorem loadDocuments_statuses_witness:
  "currentUser sample_app \<noteq> None
   \<and> \<not> noProperty (activePropertyId sample_app)
   \<and> documents (loadDocuments (Inr (Some [sample_doc])) sample_app) = [sample_doc]
   \<and> documentStatuses (loadDocuments (Inr (Some [sample_doc])) sample_app) 7 = Some Indexed
   \<and> documentStatuses (loadDocuments (Inr (Some [sample_doc])) sample_app) 8 = None"
proof -
  have u: "currentUser sample_app \<noteq> None" by (simp add: sample_app_def)
  have p: "\<not> noProperty (activePropertyId sample_app)"
    by (simp add: sample_app_history noProperty_def)
  have d: "doc_document_id sample_doc = 7" by (simp add: sample_doc_def)
  have e: "documentStatuses sample_app 7 = None" "documentStatuses sample_app 8 = None"
    by (simp_all add: sample_app_def initialState_def)
  from loadDocuments_statuses [OF u p, of "[sample_doc]"] u p d e show ?thesis
    by (simp add: shownStatus_def)
qed

section \<open>The mirror in localStorage\<close>

lemma keys_distinct:
  "BASE_KEY \<noteq> LANGUAGE_KEY" "BASE_KEY \<noteq> ACTIVE_PROPERTY_KEY" "BASE_KEY \<noteq> AUTH_TOKEN_KEY"
  "LANGUAGE_KEY \<noteq> ACTIVE_PROPERTY_KEY" "LANGUAGE_KEY \<noteq> AUTH_TOKEN_KEY"
  "ACTIVE_PROPERTY_KEY \<noteq> AUTH_TOKEN_KEY"
  by (simp_all add: BASE_KEY_def LANGUAGE_KEY_def ACTIVE_PROPERTY_KEY_def AUTH_TOKEN_KEY_def)

lemma chatHistoryKey_distinct:
  "chatHistoryKey B n \<noteq> BASE_KEY" "chatHistoryKey B n \<noteq> LANGUAGE_KEY"
  "chatHistoryKey B n \<noteq> ACTIVE_PROPERTY_KEY" "chatHistoryKey B n \<noteq> AUTH_TOKEN_KEY"
  by (simp_all add: BASE_KEY_def LANGUAGE_KEY_def ACTIVE_PROPERTY_KEY_def AUTH_TOKEN_KEY_def
      chatHistoryKey_def CHAT_HISTORY_KEY_PREFIX_def)

lemma saveEffects_apply:
  "saveEffects B s ls BASE_KEY = Some (apiBase s)"
  "saveEffects B s ls LANGUAGE_KEY = Some (languageCode (selectedLanguage s))"
  "saveEffects B s ls ACTIVE_PROPERTY_KEY = map_option (String_num B) (activePropertyId s)"
  "\<not> noProperty (activePropertyId s) \<Longrightarrow>
     saveEffects B s ls (chatHistoryKey B (the (activePropertyId s)))
       = Some (stringifyHistory B (chatHistory s))"
  using keys_distinct chatHistoryKey_distinct [of B "the (activePropertyId s)"]
  by (auto simp: saveEffects_def saveChatHistory_def saveActiveProperty_def saveLanguage_def
      saveApiBase_def split: option.splits)

lemma startup_state:
  "apiBase (fst (startup B v ls)) = apiBase (initialState B v ls)"
  "selectedLanguage (fst (startup B v ls)) = selectedLanguage (initialState B v ls)"
  "activePropertyId (fst (startup B v ls)) = activePropertyId (initialState B v ls)"
  by (simp_all add: startup_def Let_def loadChatHistory_def split: option.splits)

lemma startup_storage:
  "snd (startup B v ls) BASE_KEY = Some (apiBase (fst (startup B v ls)))"
  "snd (startup B v ls) LANGUAGE_KEY = Some (languageCode (selectedLanguage (fst (startup B v ls))))"
  "snd (startup B v ls) ACTIVE_PROPERTY_KEY
     = map_option (String_num B) (activePropertyId (fst (startup B v ls)))"
  "\<not> noProperty (activePropertyId (fst (startup B v ls))) \<Longrightarrow>
     snd (startup B v ls) (chatHistoryKey B (the (activePropertyId (fst (startup B v ls)))))
       = Some (stringifyHistory B (chatHistory (fst (startup B v ls))))"
  using keys_distinct chatHistoryKey_distinct [of B "the (activePropertyId (initialState B v ls))"]
  by (auto simp: startup_def Let_def loadChatHistory_def saveChatHistory_def saveActiveProperty_def
      saveLanguage_def saveApiBase_def dropAuthToken_def split: option.splits)

lemma initialState_fields:
  "apiBase (initialState B v ls) = stripTrailingSlashes (opt_str_or (ls BASE_KEY) (DEFAULT_API_BASE v))"
  "selectedLanguage (initialState B v ls) = parseLanguage (ls LANGUAGE_KEY)"
  "activePropertyId (initialState B v ls) =
     (case ls ACTIVE_PROPERTY_KEY of
        None \<Rightarrow> None
      | Some raw \<Rightarrow> if raw = [] then None else Number_finite B raw)"
  "chatHistory (initialState B v ls) = []"
  by (simp_all add: initialState_def)

text \<open>
  C5 (as stated: exactly three pieces of state are mirrored, the chat history, the selected
  property and the API base URL). The selected language is mirrored in the same way: a
  start on an empty storage writes the key "ndiah_language", which is none of the three
  keys, and a start on a storage that holds "fr" under it selects French.
\<close>

theorem language_also_mirrored:
  "snd (startup sample_builtins None Map.empty) ''ndiah_language'' = Some ''de''
   \<and> selectedLanguage (fst (startup sample_builtins None sample_storage)) = Fr
   \<and> ''ndiah_language'' \<noteq> BASE_KEY
   \<and> ''ndiah_language'' \<noteq> ACTIVE_PROPERTY_KEY
   \<and> take (length CHAT_HISTORY_KEY_PREFIX) ''ndiah_language'' \<noteq> CHAT_HISTORY_KEY_PREFIX"
proof -
  have 1: "snd (startup sample_builtins None Map.empty) LANGUAGE_KEY = Some ''de''"
    unfolding startup_storage(2) startup_state(2) initialState_fields(2)
    by (simp add: parseLanguage_def)
  have 2: "selectedLanguage (fst (startup sample_builtins None sample_storage)) = Fr"
    unfolding startup_state(2) initialState_fields(2)
    by (simp add: parseLanguage_def sample_storage_def BASE_KEY_def LANGUAGE_KEY_def
        ACTIVE_PROPERTY_KEY_def)
  from 1 2 show ?thesis
    by (simp add: BASE_KEY_def LANGUAGE_KEY_def ACTIVE_PROPERTY_KEY_def CHAT_HISTORY_KEY_PREFIX_def)
qed

text \<open>
  C5 (amended). The frontend keeps four pieces of state mirrored in localStorage: the API
  base URL, the selected language, the selected property id and the chat history of the
  selected property. When the effects that save them have run, the API base URL stands
  under its key, the language under its key, the selected property id under its key (the
  key is removed when no property is selected), and, when a property is selected, the chat
  history under the key of that property. On startup the API base URL (without trailing
  slashes, the default when nothing is stored), the language and the selected property id
  (when the stored text is a finite number) are initialised from the stored values.
\<close>

theorem localStorage_mirror:
  "saveEffects B s ls BASE_KEY = Some (apiBase s)
   \<and> saveEffects B s ls LANGUAGE_KEY = Some (languageCode (selectedLanguage s))
   \<and> saveEffects B s ls ACTIVE_PROPERTY_KEY = map_option (String_num B) (activePropertyId s)
   \<and> (\<not> noProperty (activePropertyId s) \<longrightarrow>
        saveEffects B s ls (chatHistoryKey B (the (activePropertyId s)))
          = Some (stringifyHistory B (chatHistory s)))
   \<and> apiBase (fst (startup B v ls))
       = stripTrailingSlashes (opt_str_or (ls BASE_KEY) (DEFAULT_API_BASE v))
   \<and> selectedLanguage (fst (startup B v ls)) = parseLanguage (ls LANGUAGE_KEY)
   \<and> activePropertyId (fst (startup B v ls))
       = (case ls ACTIVE_PROPERTY_KEY of
            None \<Rightarrow> None
          | Some raw \<Rightarrow> if raw = [] then None else Number_finite B raw)"
  by (simp add: saveEffects_apply startup_state initialState_fields)

theorem localStorage_mirror_witness:
  "saveEffects sample_builtins sample_app sample_storage ''ndiah_chat_history:5'' = Some ''[]''
   \<and> saveEffects sample_builtins sample_app sample_storage ''ndiah_active_property_id'' = Some ''5''
   \<and> apiBase (fst (startup sample_builtins None sample_storage)) = ''https://api.example.org''
   \<and> selectedLanguage (fst (startup sample_builtins None sample_storage)) = Fr
   \<and> activePropertyId (fst (startup sample_builtins None sample_storage)) = Some 5"
proof -
  have a: "activePropertyId sample_app = Some 5" "chatHistory sample_app = []"
    by (simp_all add: sample_app_def initialState_def)
  have k: "chatHistoryKey sample_builtins 5 = ''ndiah_chat_history:5''"
    "String_num sample_builtins 5 = ''5''" "stringifyHistory sample_builtins [] = ''[]''"
    by (simp_all add: chatHistoryKey_def CHAT_HISTORY_KEY_PREFIX_def sample_builtins_def decimal_def)
  have st: "sample_storage BASE_KEY = Some ''https://api.example.org/''"
    "sample_storage LANGUAGE_KEY = Some ''fr''" "sample_storage ACTIVE_PROPERTY_KEY = Some ''5''"
    by (simp_all add: sample_storage_def BASE_KEY_def LANGUAGE_KEY_def ACTIVE_PROPERTY_KEY_def)
  have n: "Number_finite sample_builtins ''5'' = Some 5"
    by (simp add: sample_builtins_def read_decimal_def digit_value_def)
  have np: "\<not> noProperty (Some 5)" by (simp add: noProperty_def)
  note m = localStorage_mirror [of sample_builtins sample_app sample_storage None]
  from m a np have 1: "saveEffects sample_builtins sample_app sample_storage
        (chatHistoryKey sample_builtins 5) = Some (stringifyHistory sample_builtins [])"
    by simp
  from m a have 2: "saveEffects sample_builtins sample_app sample_storage ACTIVE_PROPERTY_KEY
        = Some (String_num sample_builtins 5)"
    by simp
  from m st have 3: "apiBase (fst (startup sample_builtins None sample_storage))
        = stripTrailingSlashes ''https://api.example.org/''"
    by (simp add: opt_str_or_def str_or_def)
  from m st have 4: "selectedLanguage (fst (startup sample_builtins None sample_storage)) = Fr"
    by (simp add: parseLanguage_def)
  from m st have 5: "activePropertyId (fst (startup sample_builtins None sample_storage))
        = Number_finite sample_builtins ''5''"
    by simp
  from 1 2 3 4 5 show ?thesis
    unfolding k n by (simp add: ACTIVE_PROPERTY_KEY_def stripTrailingSlashes_def)
qed

text \<open>
  The chat history is not among the values restored on startup. The effect that saves the
  chat history is declared before the effect that loads it, so on the first run it writes
  the initial, empty history under the key of the restored property, and that is what the
  loading effect then reads: whatever history the storage held for that property is
  overwritten. (The first version of the component read the history in the initialiser of
  the state variable.)
\<close>

lemma startup_overwrites_chat_history:
  assumes "ls ACTIVE_PROPERTY_KEY = Some raw" "raw \<noteq> []" "Number_finite B raw = Some n" "n \<noteq> 0"
    and "parseHistory B (stringifyHistory B []) = Some []"
  shows "chatHistory (fst (startup B v ls)) = []"
    and "snd (startup B v ls) (chatHistoryKey B n) = Some (stringifyHistory B [])"
proof -
  have a: "activePropertyId (initialState B v ls) = Some n"
    using assms by (simp add: initialState_fields)
  then have np: "\<not> noProperty (activePropertyId (initialState B v ls))"
    using assms(4) by (simp add: noProperty_def)
  show h: "chatHistory (fst (startup B v ls)) = []"
    using a np assms(5)
    by (simp add: startup_def Let_def loadChatHistory_def saveChatHistory_def initialState_fields)
  from a have "activePropertyId (fst (startup B v ls)) = Some n"
    by (simp add: startup_state)
  with startup_storage(4) [of B v ls] assms(4) h
  show "snd (startup B v ls) (chatHistoryKey B n) = Some (stringifyHistory B [])"
    by (simp add: noProperty_def)
qed


end
